theory Spec2Isabelle
  imports Main
begin

section \<open>Strings and numbers of the host language\<close>

text \<open>
  A string of the program is a \<^typ>\<open>string\<close>: one \<^typ>\<open>char\<close> per code unit, so
  \<^const>\<open>length\<close> is the program's \<^verbatim>\<open>.length\<close> (for code units below 256).
  A number of the program is a double-precision floating-point number. The chapter
  counts of this program come out of \<^verbatim>\<open>parseInt\<close> and are changed by adding and
  subtracting whole numbers, so they are whole numbers, or \<^verbatim>\<open>Infinity\<close> when the
  digits typed are too many: a count is a \<open>number\<close> below, the exact value of a finite
  one being an integer.
\<close>

definition isWhiteSpace :: "char \<Rightarrow> bool" where
  "isWhiteSpace c =
     (c \<in> {CHR 0x09, CHR 0x0A, CHR 0x0B, CHR 0x0C, CHR 0x0D, CHR 0x20, CHR 0xA0})"

text \<open>\<^verbatim>\<open>String.prototype.trim\<close>: white space is removed at both ends.\<close>

definition trim :: "string \<Rightarrow> string" where
  "trim s = rev (dropWhile isWhiteSpace (rev (dropWhile isWhiteSpace s)))"

definition digitChar :: "nat \<Rightarrow> char" where
  "digitChar d = ''0123456789'' ! d"

text \<open>The decimal digits of a counter, as a template literal prints them.\<close>

function natToString :: "nat \<Rightarrow> string" where
  "natToString n =
     (if n < 10 then [digitChar n]
      else natToString (n div 10) @ [digitChar (n mod 10)])"
  by pat_completeness auto
termination
  by (relation "measure id") auto

declare natToString.simps [simp del]

definition isDigit :: "char \<Rightarrow> bool" where
  "isDigit c = (c \<in> set ''0123456789'')"

definition digitValue :: "char \<Rightarrow> nat" where
  "digitValue c = of_char c - 48"

definition digitsValue :: "string \<Rightarrow> nat" where
  "digitsValue ds = foldl (\<lambda>a c. 10 * a + digitValue c) 0 ds"

text \<open>
  \<^verbatim>\<open>parseInt(s, 10)\<close>, up to the conversion of its result to a number: leading white
  space is skipped, one sign is read, then the longest run of decimal digits, whose exact
  value is the result; \<^const>\<open>None\<close> is \<^verbatim>\<open>NaN\<close>.
\<close>

definition parseInt :: "string \<Rightarrow> int option" where
  "parseInt s =
     (let s1 = dropWhile isWhiteSpace s;
          negative = (s1 \<noteq> [] \<and> hd s1 = CHR ''-'');
          s2 = (if s1 \<noteq> [] \<and> (hd s1 = CHR ''-'' \<or> hd s1 = CHR ''+'') then tl s1 else s1);
          ds = takeWhile isDigit s2
      in if ds = [] then None
         else Some (if negative then - int (digitsValue ds) else int (digitsValue ds)))"

datatype number = Fin int | Infinity

function bitLength :: "nat \<Rightarrow> nat" where
  "bitLength n = (if n = 0 then 0 else Suc (bitLength (n div 2)))"
  by pat_completeness auto
termination
  by (relation "measure id") auto

declare bitLength.simps [simp del]

text \<open>
  The number nearest to an integer: with more than 53 bits, the integer is rounded to 53
  bits, a tie going to the even neighbour.
\<close>

definition roundDouble :: "int \<Rightarrow> int" where
  "roundDouble i =
     (let a = nat \<bar>i\<bar>; e = bitLength a - 53 in
      if e = 0 then i
      else
        (let q = a div 2 ^ e; r = a mod 2 ^ e;
             up = (2 ^ e < 2 * r \<or> (2 * r = 2 ^ e \<and> odd q));
             q' = (if up then q + 1 else q)
         in sgn i * int (q' * 2 ^ e)))"

text \<open>The number that a run of digits of value \<open>v\<close> stands for.\<close>

definition toNumber :: "nat \<Rightarrow> number" where
  "toNumber v = (if roundDouble (int v) < 2 ^ 1024 then Fin (roundDouble (int v)) else Infinity)"

text \<open>
  \<^verbatim>\<open>Number.prototype.toString\<close> prints the fewest significant digits that read back
  as the same number, and of several such the nearest (of two equally near the even one).
  A candidate is a pair \<open>(s, t)\<close> for the digits of \<open>s\<close> followed by \<open>t\<close> zeros; with
  \<open>k\<close> digits the candidates are the two multiples next to the number and the power of
  ten above it.
\<close>

definition candidates :: "nat \<Rightarrow> nat \<Rightarrow> (nat \<times> nat) list" where
  "candidates x k =
     (let t = length (natToString x) - k in
      filter (\<lambda>(s, t'). 10 ^ (k - 1) \<le> s \<and> s < 10 ^ k \<and> roundDouble (int (s * 10 ^ t')) = int x)
        [(x div 10 ^ t, t), (x div 10 ^ t + 1, t), (10 ^ (k - 1), t + 1)])"

definition closer :: "nat \<Rightarrow> nat \<times> nat \<Rightarrow> nat \<times> nat \<Rightarrow> nat \<times> nat" where
  "closer x best c =
     (let d1 = \<bar>int (fst best * 10 ^ snd best) - int x\<bar>;
          d2 = \<bar>int (fst c * 10 ^ snd c) - int x\<bar>
      in if d2 < d1 \<or> (d2 = d1 \<and> even (fst c)) then c else best)"

definition shortestDigits :: "nat \<Rightarrow> nat \<times> nat" where
  "shortestDigits x =
     (case find (\<lambda>k. candidates x k \<noteq> []) [1..<18] of
        None \<Rightarrow> (x, 0)
      | Some k \<Rightarrow> foldl (closer x) (hd (candidates x k)) (tl (candidates x k)))"

text \<open>
  A positive whole number as a string. Up to \<open>2\<^sup>5\<^sup>3\<close> every integer is a number of its
  own and the digits printed are its own. Beyond, the shortest digits are printed, filled
  up with zeros below \<open>10\<^sup>2\<^sup>1\<close> and in exponent form from there on.
\<close>

definition positiveToString :: "nat \<Rightarrow> string" where
  "positiveToString x =
     (if x \<le> 9007199254740992 then natToString x
      else
        (let ds = natToString (fst (shortestDigits x));
             n = length ds + snd (shortestDigits x)
         in if n \<le> 21 then ds @ replicate (snd (shortestDigits x)) (CHR ''0'')
            else if length ds = 1 then ds @ ''e+'' @ natToString (n - 1)
            else hd ds # ''.'' @ tl ds @ ''e+'' @ natToString (n - 1)))"

text \<open>
  A number as a string, as in \<^verbatim>\<open>"Ch. " + n\<close> and as \<^verbatim>\<open>parseInt\<close> reads a number
  it is given.
\<close>

fun numberToString :: "number \<Rightarrow> string" where
  "numberToString Infinity = ''Infinity''"
| "numberToString (Fin i) =
     (if i < 0 then CHR ''-'' # positiveToString (nat (- i)) else positiveToString (nat i))"

declare numberToString.simps [simp del]

text \<open>
  \<^verbatim>\<open>parseInt(x, 10) || d\<close> for a number \<open>x\<close>: the number is printed, the string is
  parsed, and \<open>d\<close> replaces \<^verbatim>\<open>NaN\<close> and 0. What is parsed is below \<open>10\<^sup>2\<^sup>2\<close>.
\<close>

definition parseIntOr :: "number \<Rightarrow> int \<Rightarrow> int" where
  "parseIntOr x d =
     (case parseInt (numberToString x) of
        None \<Rightarrow> d
      | Some v \<Rightarrow> if roundDouble v = 0 then d else roundDouble v)"

text \<open>
  The sum of a count and a whole number, and the two comparisons made with a count.
  \<^verbatim>\<open>Infinity\<close> stays what it is and is above every finite number.
\<close>

fun numberPlus :: "number \<Rightarrow> int \<Rightarrow> number" where
  "numberPlus Infinity a = Infinity"
| "numberPlus (Fin n) a = Fin (roundDouble (n + a))"

fun numberGreater :: "number \<Rightarrow> int \<Rightarrow> bool" where
  "numberGreater Infinity b = True"
| "numberGreater (Fin n) b = (b < n)"

fun atMostZero :: "number \<Rightarrow> bool" where
  "atMostZero Infinity = False"
| "atMostZero (Fin n) = (n \<le> 0)"

section \<open>The data model\<close>

text \<open>
  \<^verbatim>\<open>getMangaFormData\<close> builds an object of six fields; a stored record has these and
  the two dates that \<^verbatim>\<open>addNewManga\<close> spreads on.
\<close>

record mangaData =
  image :: string
  title :: string
  link :: string
  isImageWorking :: bool
  readChapters :: number
  favorite :: bool

record manga = mangaData +
  dayAdded :: string
  lastRead :: string

text \<open>What \<^verbatim>\<open>getCurrentTabInfo\<close> resolves to.\<close>

record tabInfo =
  tabTitle :: string
  tabUrl :: string

text \<open>The values of the form's fields at the time of the submission.\<close>

record formFields =
  imageValue :: string
  titleValue :: string
  linkValue :: string
  readChaptersValue :: string
  favoriteChecked :: bool

text \<open>
  Records are objects: \<^verbatim>\<open>mangaList\<close> holds references to them, the handlers change
  them in place and \<^verbatim>\<open>deleteManga\<close> compares references. The store is therefore a
  heap of objects, the list of references, and the next unused reference.
\<close>

record store =
  objects :: "nat \<rightharpoonup> manga"
  mangaList :: "nat list"
  nextRef :: nat

definition deref :: "store \<Rightarrow> nat \<Rightarrow> manga" where
  "deref st r = the (objects st r)"

definition titles :: "store \<Rightarrow> string list" where
  "titles st = map (\<lambda>r. title (deref st r)) (mangaList st)"

text \<open>Every listed reference points to an object, and no object lies beyond \<^const>\<open>nextRef\<close>.\<close>

definition wellFormed :: "store \<Rightarrow> bool" where
  "wellFormed st =
     (list_all (\<lambda>r. objects st r \<noteq> None) (mangaList st) \<and>
      list_all (\<lambda>r. r < nextRef st) (mangaList st))"

text \<open>What a handler does besides changing the store, in the order it does it.\<close>

datatype effect =
    ShowModal string
  | ResetFormValues
  | HideMangaForm
  | LoadFilteredMangas
  | SaveMangas
  | ShowReloadDialog
  | CloseAllDialogs
  | HandleMaxChapters number
  | RemoveChild
  | ConsoleError

datatype error = TypeError | InvalidOperation

section \<open>The form controller\<close>

definition isNameUsed :: "store \<Rightarrow> string \<Rightarrow> bool" where
  "isNameUsed st t = list_ex (\<lambda>m. title (deref st m) = t) (mangaList st)"

text \<open>The template literal \<^verbatim>\<open>`${title} (${counter})`\<close>.\<close>

definition numbered :: "string \<Rightarrow> nat \<Rightarrow> string" where
  "numbered t counter = t @ '' ('' @ natToString counter @ '')''"

text \<open>The \<^verbatim>\<open>while\<close> loop of \<^verbatim>\<open>generateUniqueTitle\<close>, from the counter it has reached.\<close>

function uniqueTitleLoop :: "store \<Rightarrow> string \<Rightarrow> nat \<Rightarrow> string" where
  "uniqueTitleLoop st t counter =
     (if isNameUsed st (numbered t counter) then uniqueTitleLoop st t (counter + 1)
      else numbered t counter)"
  by pat_completeness auto

definition generateUniqueTitle :: "store \<Rightarrow> string \<Rightarrow> string" where
  "generateUniqueTitle st t = (if \<not> isNameUsed st t then t else uniqueTitleLoop st t 1)"

definition getMangaFormData :: "store \<Rightarrow> formFields \<Rightarrow> tabInfo \<Rightarrow> mangaData" where
  "getMangaFormData st form tab =
     (let linkInput = trim (linkValue form);
          titleInput = trim (titleValue form);
          readChaptersInput = trim (readChaptersValue form);
          link' = (if linkInput \<noteq> [] then linkInput else tabUrl tab);
          title' = (if titleInput \<noteq> [] then titleInput else generateUniqueTitle st (tabTitle tab));
          validReadChapters =
            (case parseInt readChaptersInput of
               None \<Rightarrow> Fin 0
             | Some v \<Rightarrow> if v < 0 then Fin 0 else toNumber (nat v))
      in \<lparr>image = trim (imageValue form), title = title', link = link',
          isImageWorking = True, readChapters = validReadChapters,
          favorite = favoriteChecked form\<rparr>)"

text \<open>The result is the key of the message, \<^const>\<open>None\<close> for \<^verbatim>\<open>null\<close>.\<close>

definition validateMangaData :: "store \<Rightarrow> mangaData \<Rightarrow> string \<Rightarrow> string option" where
  "validateMangaData st data originalTitle =
     (if title data = [] then Some ''modal-title-required''
      else if title data \<noteq> originalTitle \<and> isNameUsed st (title data)
        then Some ''modal-unique-title-required''
      else None)"

definition refreshAndSaveMangas :: "effect list" where
  "refreshAndSaveMangas = [LoadFilteredMangas, SaveMangas]"

definition addNewManga :: "store \<Rightarrow> formFields \<Rightarrow> tabInfo \<Rightarrow> string \<Rightarrow> store \<times> effect list" where
  "addNewManga st form tab date =
     (let data = getMangaFormData st form tab in
      case validateMangaData st data [] of
        Some validationError \<Rightarrow> (st, [ShowModal validationError])
      | None \<Rightarrow>
          (let newManga = \<lparr>image = image data, title = title data, link = link data,
                 isImageWorking = isImageWorking data, readChapters = readChapters data,
                 favorite = favorite data, dayAdded = date, lastRead = date\<rparr>
           in (st\<lparr>objects := (objects st)(nextRef st \<mapsto> newManga),
                   mangaList := mangaList st @ [nextRef st],
                   nextRef := nextRef st + 1\<rparr>,
               [ResetFormValues, HideMangaForm] @ refreshAndSaveMangas)))"

text \<open>As in the source, the result is true when none of the five fields differs.\<close>

definition hasChanges :: "manga \<Rightarrow> mangaData \<Rightarrow> bool" where
  "hasChanges m data =
     (image m = image data \<and> link m = link data \<and> readChapters m = readChapters data \<and>
      title m = title data \<and> favorite m = favorite data)"

text \<open>
  \<^verbatim>\<open>handleLinkReload\<close> up to the point where it has shown the dialog and bound its
  buttons; the store changes only when the confirm button is clicked later.
\<close>

definition handleLinkReload :: "store \<Rightarrow> nat \<Rightarrow> tabInfo \<Rightarrow> effect list" where
  "handleLinkReload st m newUrl =
     (if link (deref st m) = tabUrl newUrl then [CloseAllDialogs] else [ShowReloadDialog])"

text \<open>The listener bound to the dialog's confirm button.\<close>

definition confirmReload :: "store \<Rightarrow> nat \<Rightarrow> tabInfo \<Rightarrow> store \<times> effect list" where
  "confirmReload st m newUrl =
     (if link (deref st m) = tabUrl newUrl then (st, [])
      else (st\<lparr>objects := (objects st)(m \<mapsto> (deref st m)\<lparr>link := tabUrl newUrl\<rparr>)\<rparr>,
            [SaveMangas, CloseAllDialogs]))"

text \<open>
  \<^verbatim>\<open>updateMangaDetails(manga)\<close>: \<open>tab\<close> is what the form data is filled from,
  \<open>newUrl\<close> what \<^verbatim>\<open>handleLinkReload\<close> is answered.
\<close>

definition updateMangaDetails ::
  "store \<Rightarrow> nat \<Rightarrow> formFields \<Rightarrow> tabInfo \<Rightarrow> tabInfo \<Rightarrow> string \<Rightarrow> store \<times> effect list" where
  "updateMangaDetails st m form tab newUrl now =
     (let data = getMangaFormData st form tab in
      case validateMangaData st data (title (deref st m)) of
        Some validationError \<Rightarrow> (st, [ShowModal validationError])
      | None \<Rightarrow>
          if hasChanges (deref st m) data then (st, handleLinkReload st m newUrl)
          else
            (st\<lparr>objects := (objects st)(m \<mapsto>
                   (deref st m)\<lparr>image := image data, title := title data, link := link data,
                     isImageWorking := isImageWorking data, readChapters := readChapters data,
                     favorite := favorite data, lastRead := now\<rparr>)\<rparr>,
             [ResetFormValues, HideMangaForm] @ refreshAndSaveMangas))"

section \<open>The list item and its handlers\<close>

text \<open>
  What \<^verbatim>\<open>createMangaElement\<close> writes into the item: the values interpolated into the
  template, one field for each place of the markup that depends on the record.
\<close>

record mangaElement =
  datasetTitle :: string
  favHoverClass :: string
  favFillClass :: string
  imgSrc :: string
  imgAlt :: string
  href :: string
  titleAttribute :: string
  titleText :: string
  dateText :: string
  chapterCountText :: string

text \<open>The argument is whether the document element has the class \<^verbatim>\<open>dark\<close>.\<close>

definition handleImageTheme :: "bool \<Rightarrow> string" where
  "handleImageTheme dark =
     (if dark then ''../public/fallback-images/dark-mode-fallback.svg''
      else ''../public/fallback-images/light-mode-fallback.svg'')"

definition createMangaElement :: "bool \<Rightarrow> manga \<Rightarrow> mangaElement" where
  "createMangaElement dark m =
     \<lparr>datasetTitle = title m,
      favHoverClass = (if favorite m then ''hover:fill-light-red'' else ''hover:fill-yellow-400''),
      favFillClass = (if favorite m then ''fill-yellow-400'' else ''fill-transparent''),
      imgSrc = (if isImageWorking m then image m else handleImageTheme dark),
      imgAlt = title m,
      href = link m,
      titleAttribute = title m,
      titleText = (if length (title m) < 20 then title m else take (22 - 3) (title m) @ ''...''),
      dateText = lastRead m,
      chapterCountText = ''Ch. '' @ numberToString (readChapters m)\<rparr>"

text \<open>
  The template is assigned to \<^verbatim>\<open>innerHTML\<close>, so the markup parser of the browser
  reads the interpolated strings. Of the parser this much is modelled. A value between
  double quotes ends at the first double quote: a string without one leaves the tag as the
  template wrote it. In a text position a string without \<^verbatim>\<open><\<close>, \<^verbatim>\<open>&\<close>, the
  null character and the carriage return becomes the text as it stands.
\<close>

definition keepsTag :: "string \<Rightarrow> bool" where
  "keepsTag v = (CHR 0x22 \<notin> set v)"

definition plainText :: "string \<Rightarrow> bool" where
  "plainText s = list_all (\<lambda>c. c \<notin> {CHR ''<'', CHR ''&'', CHR 0x00, CHR 0x0D}) s"

text \<open>
  The text of the title paragraph of an item, which is what the item shows of the title:
  the interpolated string between the line break and indentation that the template has
  on either side of it. The four attribute values written before the paragraph must have
  left their tags alone. What the parser makes of any other markup is left open, which
  is the value \<^const>\<open>None\<close>.
\<close>

definition titleParagraph :: "mangaElement \<Rightarrow> string option" where
  "titleParagraph el =
     (if keepsTag (imgSrc el) \<and> keepsTag (imgAlt el) \<and> keepsTag (href el) \<and>
         keepsTag (titleAttribute el) \<and> plainText (titleText el)
      then Some (CHR 0x0A # replicate 20 (CHR '' '') @ titleText el @
                 CHR 0x0A # replicate 16 (CHR '' ''))
      else None)"

text \<open>
  An event, as far as the handlers look at it: the item, with its two labels, that
  \<^verbatim>\<open>event.target.closest('.manga-item')\<close> finds, \<^const>\<open>None\<close> for \<^verbatim>\<open>null\<close>.
\<close>

record event =
  closestMangaItem :: "mangaElement option"

text \<open>
  The outcome of \<^verbatim>\<open>handleChapterUpdate\<close>: the error thrown, if any, and the record,
  the item and the effects as they are when the function is left.
\<close>

record chapterUpdate =
  thrown :: "error option"
  updated :: manga
  item :: "mangaElement option"
  effects :: "effect list"

text \<open>
  \<^verbatim>\<open>handleChapterUpdate(manga, operation, amount, event)\<close> changes only the object it
  is given, which goes in and comes out. \<^verbatim>\<open>getMaxChapters\<close> and
  \<^verbatim>\<open>handleMaxChapters\<close> belong to another part of the extension: what the first
  returns is the argument \<open>maxChapters\<close>, a call of the second is an effect.
  \<open>sortOption\<close> is the value of the sort selector and \<open>now\<close> the current time as
  \<^verbatim>\<open>toLocaleString\<close> prints it. The amount is a finite whole number. The test
  against the maximum adds the amount to the count as it is stored; the new count is
  computed from what \<^verbatim>\<open>parseInt\<close> reads of the stored count.
\<close>

definition handleChapterUpdate ::
  "manga \<Rightarrow> string \<Rightarrow> int \<Rightarrow> event \<Rightarrow> int \<Rightarrow> string \<Rightarrow> string \<Rightarrow> chapterUpdate" where
  "handleChapterUpdate m operation amount0 ev maxChapters sortOption now =
     (case closestMangaItem ev of
        None \<Rightarrow> \<lparr>thrown = Some TypeError, updated = m, item = None, effects = []\<rparr>
      | Some mangaItemElement \<Rightarrow>
          (let amount = parseIntOr (Fin amount0) 1;
               counted =
                 (if operation = ''+'' then
                    Inr (m\<lparr>readChapters :=
                             Fin (roundDouble (parseIntOr (readChapters m) 0 + amount))\<rparr>,
                         if numberGreater (numberPlus (readChapters m) amount) maxChapters
                         then [HandleMaxChapters (numberPlus (readChapters m) amount)] else [])
                  else if operation = ''-'' then
                    Inr (if atMostZero (readChapters m) then m\<lparr>readChapters := Fin 0\<rparr>
                         else m\<lparr>readChapters :=
                                  Fin (roundDouble (parseIntOr (readChapters m) 0 - amount))\<rparr>, [])
                  else Inl InvalidOperation)
           in case counted of
                Inl e \<Rightarrow> \<lparr>thrown = Some e, updated = m, item = Some mangaItemElement,
                          effects = []\<rparr>
              | Inr (m', overMax) \<Rightarrow>
                  (let dated = m'\<lparr>lastRead := now\<rparr> in
                   \<lparr>thrown = None, updated = dated,
                    item = Some (mangaItemElement\<lparr>dateText := lastRead dated,
                      chapterCountText := ''Ch. '' @ numberToString (readChapters dated)\<rparr>),
                    effects = overMax @ [SaveMangas] @
                      (if sortOption = ''chaptersRead'' then [LoadFilteredMangas] else [])\<rparr>)))"

text \<open>
  \<^verbatim>\<open>deleteManga(manga, event)\<close>: the list is filtered first, so it has changed already
  when the removal of the item throws for want of an item.
\<close>

definition deleteManga :: "store \<Rightarrow> nat \<Rightarrow> event \<Rightarrow> error option \<times> store \<times> effect list" where
  "deleteManga st m ev =
     (let st' = st\<lparr>mangaList := filter (\<lambda>r. r \<noteq> m) (mangaList st)\<rparr> in
      case closestMangaItem ev of
        None \<Rightarrow> (Some TypeError, st', [])
      | Some mangaItemElement \<Rightarrow> (None, st', [RemoveChild, SaveMangas]))"

section \<open>Rendering in batches\<close>

text \<open>The \<^verbatim>\<open>for\<close> loop of \<^verbatim>\<open>loadBatch\<close>: the fragment from index \<open>i\<close> on.\<close>

function fragmentFrom :: "bool \<Rightarrow> manga list \<Rightarrow> nat \<Rightarrow> nat \<Rightarrow> mangaElement list" where
  "fragmentFrom dark inputList i endIndex =
     (if i < endIndex
      then createMangaElement dark (inputList ! i) # fragmentFrom dark inputList (i + 1) endIndex
      else [])"
  by pat_completeness auto
termination
  by (relation "measure (\<lambda>(dark, inputList, i, endIndex). endIndex - i)") auto

declare fragmentFrom.simps [simp del]

text \<open>
  \<^verbatim>\<open>loadBatch\<close> reschedules itself on the next animation frame as long as records are
  left; nothing in it bounds the number of rounds, so not returning is the value
  \<^const>\<open>None\<close>. The state is the children of the container and the fragments appended
  so far, one for each \<^verbatim>\<open>appendChild\<close>.
\<close>

partial_function (option) loadBatch ::
  "bool \<Rightarrow> manga list \<Rightarrow> nat \<Rightarrow> nat \<Rightarrow> mangaElement list \<times> mangaElement list list
    \<Rightarrow> (mangaElement list \<times> mangaElement list list) option" where
  "loadBatch dark inputList batchSize currentIndex shown =
     (let endIndex = min (currentIndex + batchSize) (length inputList);
          fragment = fragmentFrom dark inputList currentIndex endIndex;
          shown' = (fst shown @ fragment, snd shown @ [fragment]);
          currentIndex' = currentIndex + batchSize
      in if currentIndex' < length inputList
         then loadBatch dark inputList batchSize currentIndex' shown'
         else Some shown')"

text \<open>
  \<^verbatim>\<open>loadMangas(inputList, batchSize)\<close>: whatever the container held is dropped by
  \<^verbatim>\<open>innerHTML = ''\<close>. The call of \<^verbatim>\<open>handleBlur\<close> at the end reads the scroll
  position and touches the two blur elements only; it is left out.
\<close>

definition loadMangas ::
  "mangaElement list \<Rightarrow> bool \<Rightarrow> manga list \<Rightarrow> nat
    \<Rightarrow> (mangaElement list \<times> mangaElement list list) option" where
  "loadMangas container dark inputList batchSize = loadBatch dark inputList batchSize 0 ([], [])"

text \<open>
  The batches as the specification words them: a list cut into pieces of the batch size,
  the last piece holding what remains. The events of \<^const>\<open>loadBatch\<close> are compared
  with it below.
\<close>

function batches :: "nat \<Rightarrow> 'a list \<Rightarrow> 'a list list" where
  "batches b xs = (if b = 0 \<or> length xs \<le> b then [xs] else take b xs # batches b (drop b xs))"
  by pat_completeness auto
termination
  by (relation "measure (\<lambda>(b, xs). length xs)") auto

declare batches.simps [simp del]

section \<open>Sequences of operations\<close>

datatype action =
    Add formFields tabInfo string
  | Edit nat formFields tabInfo tabInfo string
  | Delete nat event

fun step :: "store \<Rightarrow> action \<Rightarrow> store" where
  "step st (Add form tab date) = fst (addNewManga st form tab date)"
| "step st (Edit m form tab newUrl now) = fst (updateMangaDetails st m form tab newUrl now)"
| "step st (Delete m ev) = fst (snd (deleteManga st m ev))"

definition run :: "store \<Rightarrow> action list \<Rightarrow> store" where
  "run st acts = foldl step st acts"

section \<open>Sample data\<close>

definition mangaA :: manga where
  "mangaA = \<lparr>image = [], title = ''A'', link = ''x'', isImageWorking = True,
     readChapters = Fin 2, favorite = False, dayAdded = ''d0'', lastRead = ''d0''\<rparr>"

definition mangaA1 :: manga where
  "mangaA1 = \<lparr>image = [], title = ''A (1)'', link = ''y'', isImageWorking = True,
     readChapters = Fin 0, favorite = True, dayAdded = ''d1'', lastRead = ''d1''\<rparr>"

definition storeA :: store where
  "storeA = \<lparr>objects = [0 \<mapsto> mangaA], mangaList = [0], nextRef = 1\<rparr>"

definition storeAA1 :: store where
  "storeAA1 = \<lparr>objects = [0 \<mapsto> mangaA, 1 \<mapsto> mangaA1], mangaList = [0, 1], nextRef = 2\<rparr>"

definition blankForm :: formFields where
  "blankForm = \<lparr>imageValue = [], titleValue = '' '', linkValue = [],
     readChaptersValue = ''3'', favoriteChecked = False\<rparr>"

definition tabA :: tabInfo where
  "tabA = \<lparr>tabTitle = ''A'', tabUrl = ''u''\<rparr>"

definition formTitled :: "string \<Rightarrow> formFields" where
  "formTitled t = \<lparr>imageValue = [], titleValue = t, linkValue = ''x'',
     readChaptersValue = ''2'', favoriteChecked = False\<rparr>"

text \<open>A click inside the item rendered for a record.\<close>

definition clickOn :: "manga \<Rightarrow> event" where
  "clickOn m = \<lparr>closestMangaItem = Some (createMangaElement False m)\<rparr>"

definition sampleActions :: "action list" where
  "sampleActions =
     [Add (formTitled ''B'') tabA ''d2'',
      Add (formTitled ''A'') tabA ''d3'',
      Edit 0 (formTitled ''B'') tabA tabA ''d4'',
      Edit 0 (formTitled '' C '') tabA tabA ''d5'',
      Delete 1 (clickOn mangaA1),
      Add blankForm tabA ''d6'']"

definition mangaTwenty :: manga where
  "mangaTwenty = mangaA\<lparr>title := ''12345678901234567890''\<rparr>"

text \<open>Two records that differ in nothing but their identity, and a third.\<close>

definition storeTwins :: store where
  "storeTwins = \<lparr>objects = [0 \<mapsto> mangaA, 1 \<mapsto> mangaA, 2 \<mapsto> mangaA1], mangaList = [0, 1, 2], nextRef = 3\<rparr>"

text \<open>The form as it is pre-filled for the record \<^const>\<open>mangaA\<close>, with a link typed in.\<close>

definition formLinked :: "string \<Rightarrow> formFields" where
  "formLinked l = \<lparr>imageValue = [], titleValue = ''A'', linkValue = l,
     readChaptersValue = ''2'', favoriteChecked = False\<rparr>"

definition tabZ :: tabInfo where
  "tabZ = \<lparr>tabTitle = ''Z'', tabUrl = ''z''\<rparr>"

definition tabX :: tabInfo where
  "tabX = \<lparr>tabTitle = ''X'', tabUrl = ''x''\<rparr>"

definition sevenMangas :: "manga list" where
  "sevenMangas = map (\<lambda>t. mangaA\<lparr>title := t\<rparr>) [''1'', ''2'', ''3'', ''4'', ''5'', ''6'', ''7'']"

section \<open>Whole numbers up to \<open>2\<^sup>5\<^sup>3\<close>\<close>

lemma bitLength_bound: "n < 2 ^ k \<Longrightarrow> bitLength n \<le> k"
proof (induction k arbitrary: n)
  case 0
  then have "n = 0" by simp
  then show ?case by (simp add: bitLength.simps [of 0])
next
  case (Suc k)
  then have "n div 2 < 2 ^ k" by simp
  then have "bitLength (n div 2) \<le> k" by (rule Suc.IH)
  then show ?case by (simp add: bitLength.simps [of n])
qed

lemma bitLength_53: "bitLength 9007199254740992 = 54"
  by (simp add: bitLength.simps)


text \<open>Up to \<open>2\<^sup>5\<^sup>3\<close> in absolute value, an integer is a number: rounding leaves it.\<close>

lemma roundDouble_exact: "\<bar>i\<bar> \<le> 9007199254740992 \<Longrightarrow> roundDouble i = i"
proof (cases "\<bar>i\<bar> = 9007199254740992")
  case True
  then have "i = 9007199254740992 \<or> i = - 9007199254740992" by arith
  then show ?thesis
    by (auto simp: roundDouble_def bitLength_53 Let_def)
next
  case False
  assume "\<bar>i\<bar> \<le> 9007199254740992"
  with False have "nat \<bar>i\<bar> < 2 ^ 53" by simp
  then have "bitLength (nat \<bar>i\<bar>) \<le> 53" by (rule bitLength_bound)
  then show ?thesis by (simp add: roundDouble_def Let_def)
qed

lemma toNumber_exact: "v \<le> 9007199254740992 \<Longrightarrow> toNumber v = Fin (int v)"
proof -
  assume v: "v \<le> 9007199254740992"
  then have "roundDouble (int v) = int v" by (intro roundDouble_exact) simp
  moreover have "int v < 2 ^ 1024"
  proof -
    from v have "int v < 2 ^ 54" by simp
    also have "(2::int) ^ 54 < 2 ^ 1024" by (rule power_strict_increasing) simp_all
    finally show ?thesis .
  qed
  ultimately show ?thesis by (simp add: toNumber_def)
qed

lemma natToString_digits: "natToString n \<noteq> [] \<and> list_all isDigit (natToString n)"
proof (induction n rule: natToString.induct)
  case (1 n)
  have d: "isDigit (digitChar k)" if "k < 10" for k
  proof -
    from that have "k \<in> {0, 1, 2, 3, 4, 5, 6, 7, 8, 9}" by auto
    then show ?thesis by (auto simp: isDigit_def digitChar_def)
  qed
  show ?case
  proof (cases "n < 10")
    case True
    then show ?thesis by (simp add: natToString.simps [of n] d)
  next
    case False
    with 1 show ?thesis by (simp add: natToString.simps [of n] d)
  qed
qed

lemma isDigit_plain: "isDigit c \<Longrightarrow> \<not> isWhiteSpace c \<and> c \<noteq> CHR ''-'' \<and> c \<noteq> CHR ''+''"
  by (auto simp: isDigit_def isWhiteSpace_def)

lemma parseInt_digits:
  assumes "ds \<noteq> []" and "list_all isDigit ds"
  shows "parseInt ds = Some (int (digitsValue ds))"
    and "parseInt (CHR ''-'' # ds) = Some (- int (digitsValue ds))"
proof -
  from assms obtain c cs where ds: "ds = c # cs" and c: "isDigit c"
    by (cases ds) auto
  from assms(2) have t: "takeWhile isDigit ds = ds"
    by (simp add: takeWhile_eq_all_conv list_all_iff)
  from ds c isDigit_plain [OF c] have w: "dropWhile isWhiteSpace ds = ds" by simp
  from ds isDigit_plain [OF c] have h: "hd ds \<noteq> CHR ''-''" "hd ds \<noteq> CHR ''+''" by simp_all
  show "parseInt ds = Some (int (digitsValue ds))"
    using assms(1) h by (simp add: parseInt_def w t Let_def)
  have "\<not> isWhiteSpace (CHR ''-'')" by (simp add: isWhiteSpace_def)
  then show "parseInt (CHR ''-'' # ds) = Some (- int (digitsValue ds))"
    using assms(1) by (simp add: parseInt_def t Let_def)
qed


section \<open>Decimal digits and the uniqueness loop\<close>

lemma digitValue_digitChar: "d < 10 \<Longrightarrow> digitValue (digitChar d) = d"
proof -
  assume "d < 10"
  then have "d \<in> {0, 1, 2, 3, 4, 5, 6, 7, 8, 9}" by auto
  then show ?thesis by (auto simp: digitValue_def digitChar_def)
qed

lemma digitsValue_snoc: "digitsValue (ds @ [c]) = 10 * digitsValue ds + digitValue c"
  by (simp add: digitsValue_def)

text \<open>Reading the digits back gives the number, so no two numbers print alike.\<close>

lemma digitsValue_natToString: "digitsValue (natToString n) = n"
proof (induction n rule: natToString.induct)
  case (1 n)
  show ?case
  proof (cases "n < 10")
    case True
    then show ?thesis
      by (simp add: natToString.simps [of n] digitsValue_def digitValue_digitChar)
  next
    case False
    with 1 show ?thesis
      by (simp add: natToString.simps [of n] digitsValue_snoc digitValue_digitChar)
  qed
qed

lemma natToString_inj: "natToString m = natToString n \<Longrightarrow> m = n"
  by (metis digitsValue_natToString)






text \<open>Printing a number up to \<open>2\<^sup>5\<^sup>3\<close> and parsing the string gives the number back.\<close>

lemma parseInt_numberToString:
  assumes "\<bar>i\<bar> \<le> 9007199254740992"
  shows "parseInt (numberToString (Fin i)) = Some i"
proof (cases "i < 0")
  case True
  with assms have "nat (- i) \<le> 9007199254740992" by simp
  then have "numberToString (Fin i) = CHR ''-'' # natToString (nat (- i))"
    using True by (simp add: numberToString.simps positiveToString_def)
  moreover have "parseInt (CHR ''-'' # natToString (nat (- i)))
      = Some (- int (digitsValue (natToString (nat (- i)))))"
    using natToString_digits [of "nat (- i)"] by (intro parseInt_digits(2)) simp_all
  ultimately show ?thesis using True by (simp add: digitsValue_natToString)
next
  case False
  with assms have "nat i \<le> 9007199254740992" by simp
  then have "numberToString (Fin i) = natToString (nat i)"
    using False by (simp add: numberToString.simps positiveToString_def)
  moreover have "parseInt (natToString (nat i)) = Some (int (digitsValue (natToString (nat i))))"
    using natToString_digits [of "nat i"] by (intro parseInt_digits(1)) simp_all
  ultimately show ?thesis using False by (simp add: digitsValue_natToString)
qed

lemma parseIntOr_exact:
  "\<bar>i\<bar> \<le> 9007199254740992 \<Longrightarrow> parseIntOr (Fin i) d = (if i = 0 then d else i)"
  by (simp add: parseIntOr_def parseInt_numberToString roundDouble_exact)

lemma numbered_inj: "numbered t j = numbered t k \<Longrightarrow> j = k"
  by (simp add: numbered_def natToString_inj)

lemma isNameUsed_titles: "isNameUsed st t \<longleftrightarrow> t \<in> set (titles st)"
  by (auto simp: isNameUsed_def titles_def list_ex_iff)

lemma finite_used_numbers: "finite {k. isNameUsed st (numbered t k)}"
proof -
  have "inj (numbered t)" by (rule injI) (rule numbered_inj)
  then have "finite (numbered t -` set (titles st))" by (simp add: finite_vimageI)
  moreover have "{k. isNameUsed st (numbered t k)} = numbered t -` set (titles st)"
    by (auto simp: isNameUsed_titles)
  ultimately show ?thesis by simp
qed

text \<open>
  The loop ends: the store is finite, and every round leaves one used numbered title
  behind.
\<close>

termination uniqueTitleLoop
proof (relation "measure (\<lambda>(st, t, counter). card {k. counter \<le> k \<and> isNameUsed st (numbered t k)})")
  show "wf (measure (\<lambda>(st, t, counter). card {k. counter \<le> k \<and> isNameUsed st (numbered t k)}))"
    by simp
next
  fix st t counter
  assume used: "isNameUsed st (numbered t counter)"
  have fin: "finite {k. counter \<le> k \<and> isNameUsed st (numbered t k)}"
    by (rule finite_subset [OF _ finite_used_numbers [of st t]]) auto
  have "counter \<in> {k. counter \<le> k \<and> isNameUsed st (numbered t k)}"
    using used by simp
  moreover have "counter \<notin> {k. counter + 1 \<le> k \<and> isNameUsed st (numbered t k)}"
    by simp
  moreover have "{k. counter + 1 \<le> k \<and> isNameUsed st (numbered t k)}
          \<subseteq> {k. counter \<le> k \<and> isNameUsed st (numbered t k)}"
    by auto
  ultimately have "{k. counter + 1 \<le> k \<and> isNameUsed st (numbered t k)}
          \<subset> {k. counter \<le> k \<and> isNameUsed st (numbered t k)}"
    by blast
  then have "card {k. counter + 1 \<le> k \<and> isNameUsed st (numbered t k)}
          < card {k. counter \<le> k \<and> isNameUsed st (numbered t k)}"
    using fin by (rule psubset_card_mono [rotated])
  then show "((st, t, counter + 1), (st, t, counter))
      \<in> measure (\<lambda>(st, t, counter). card {k. counter \<le> k \<and> isNameUsed st (numbered t k)})"
    by simp
qed

declare uniqueTitleLoop.simps [simp del]

lemma uniqueTitleLoop_first_unused:
  "\<exists>n\<ge>counter. uniqueTitleLoop st t counter = numbered t n \<and> \<not> isNameUsed st (numbered t n) \<and>
     (\<forall>k. counter \<le> k \<and> k < n \<longrightarrow> isNameUsed st (numbered t k))"
proof (induction st t counter rule: uniqueTitleLoop.induct)
  case (1 st t counter)
  show ?case
  proof (cases "isNameUsed st (numbered t counter)")
    case False
    then have "uniqueTitleLoop st t counter = numbered t counter"
      by (simp add: uniqueTitleLoop.simps [of st t counter])
    with False show ?thesis by auto
  next
    case True
    from 1 [OF True] obtain n where n: "counter + 1 \<le> n"
      "uniqueTitleLoop st t (counter + 1) = numbered t n" "\<not> isNameUsed st (numbered t n)"
      "\<forall>k. counter + 1 \<le> k \<and> k < n \<longrightarrow> isNameUsed st (numbered t k)"
      by blast
    have "uniqueTitleLoop st t counter = numbered t n"
      using True n(2) by (simp add: uniqueTitleLoop.simps [of st t counter])
    moreover have "\<forall>k. counter \<le> k \<and> k < n \<longrightarrow> isNameUsed st (numbered t k)"
    proof (intro allI impI)
      fix k assume k: "counter \<le> k \<and> k < n"
      show "isNameUsed st (numbered t k)"
      proof (cases "k = counter")
        case True
        with \<open>isNameUsed st (numbered t counter)\<close> show ?thesis by simp
      next
        case False
        with k have "counter + 1 \<le> k \<and> k < n" by simp
        with n(4) show ?thesis by blast
      qed
    qed
    ultimately show ?thesis using n(1) n(3) by (intro exI [of _ n]) simp
  qed
qed

lemma generateUniqueTitle_unused: "\<not> isNameUsed st (generateUniqueTitle st t)"
  using uniqueTitleLoop_first_unused [of 1 st t] by (auto simp: generateUniqueTitle_def)

lemma formTitle_used_nonempty:
  "isNameUsed st (title (getMangaFormData st form tab)) \<Longrightarrow>
     title (getMangaFormData st form tab) \<noteq> []"
  using generateUniqueTitle_unused [of st "tabTitle tab"]
  by (auto simp: getMangaFormData_def Let_def split: if_splits)

lemma titles_storeAA1: "titles storeAA1 = [''A'', ''A (1)'']"
  by (simp add: titles_def storeAA1_def deref_def mangaA_def mangaA1_def)

lemma titles_storeA: "titles storeA = [''A'']"
  by (simp add: titles_def storeA_def deref_def mangaA_def)

section \<open>Title auto-fill\<close>

text \<open>
  Claim C6. When the title field is empty at submit time (or holds white space only), the
  title of the form data is \<^verbatim>\<open>generateUniqueTitle\<close> of the active tab's title. The
  title that \<^verbatim>\<open>generateUniqueTitle\<close> returns is that of no stored record; it is the
  base title itself when no stored record has it, and otherwise the base title followed by
  \<^verbatim>\<open>" (n)"\<close> for a positive \<open>n\<close> such that every smaller positive number gives a
  stored title: \<open>n\<close> is the smallest that makes the result new.
\<close>

theorem generateUniqueTitle_smallest_number:
  "(trim (titleValue form) = [] \<longrightarrow>
      title (getMangaFormData st form tab) = generateUniqueTitle st (tabTitle tab)) \<and>
   generateUniqueTitle st t \<notin> set (titles st) \<and>
   (t \<notin> set (titles st) \<longrightarrow> generateUniqueTitle st t = t) \<and>
   (t \<in> set (titles st) \<longrightarrow>
      (\<exists>n\<ge>1. generateUniqueTitle st t = t @ '' ('' @ natToString n @ '')'' \<and>
         (\<forall>k. 1 \<le> k \<and> k < n \<longrightarrow> t @ '' ('' @ natToString k @ '')'' \<in> set (titles st))))"
proof (intro conjI impI)
  assume "trim (titleValue form) = []"
  then show "title (getMangaFormData st form tab) = generateUniqueTitle st (tabTitle tab)"
    by (simp add: getMangaFormData_def Let_def)
next
  show "generateUniqueTitle st t \<notin> set (titles st)"
    using generateUniqueTitle_unused [of st t] by (simp add: isNameUsed_titles)
next
  assume "t \<notin> set (titles st)"
  then show "generateUniqueTitle st t = t"
    by (simp add: generateUniqueTitle_def isNameUsed_titles)
next
  assume "t \<in> set (titles st)"
  then have "generateUniqueTitle st t = uniqueTitleLoop st t 1"
    by (simp add: generateUniqueTitle_def isNameUsed_titles)
  with uniqueTitleLoop_first_unused [of 1 st t]
  show "\<exists>n\<ge>1. generateUniqueTitle st t = t @ '' ('' @ natToString n @ '')'' \<and>
         (\<forall>k. 1 \<le> k \<and> k < n \<longrightarrow> t @ '' ('' @ natToString k @ '')'' \<in> set (titles st))"
    by (auto simp: numbered_def isNameUsed_titles)
qed

text \<open>
  With \<^verbatim>\<open>A\<close> and \<^verbatim>\<open>A (1)\<close> stored and a blank title field on a tab titled
  \<^verbatim>\<open>A\<close>, the form data is titled \<^verbatim>\<open>A (2)\<close>; the unused title \<^verbatim>\<open>B\<close> is kept.
\<close>

theorem generateUniqueTitle_smallest_number_witness:
  "trim (titleValue blankForm) = [] \<and>
   title (getMangaFormData storeAA1 blankForm tabA) = ''A (2)'' \<and>
   ''B'' \<notin> set (titles storeAA1) \<and> generateUniqueTitle storeAA1 ''B'' = ''B'' \<and>
   ''A'' \<in> set (titles storeAA1) \<and> generateUniqueTitle storeAA1 ''A'' = ''A (2)''"
proof -
  have e: "trim (titleValue blankForm) = []"
    by (simp add: blankForm_def trim_def isWhiteSpace_def)
  have a: "''A'' \<in> set (titles storeAA1)" and b: "''B'' \<notin> set (titles storeAA1)"
    by (simp_all add: titles_storeAA1)
  have g: "generateUniqueTitle storeAA1 ''A'' = ''A (2)''"
    by (simp add: generateUniqueTitle_def uniqueTitleLoop.simps isNameUsed_titles
        titles_storeAA1 numbered_def natToString.simps digitChar_def)
  from generateUniqueTitle_smallest_number [of blankForm storeAA1 tabA "''B''"] b
  have "generateUniqueTitle storeAA1 ''B'' = ''B''" by blast
  moreover from generateUniqueTitle_smallest_number [of blankForm storeAA1 tabA "''A''"] e
  have "title (getMangaFormData storeAA1 blankForm tabA)
          = generateUniqueTitle storeAA1 (tabTitle tabA)"
    by blast
  ultimately show ?thesis using e a b g by (simp add: tabA_def)
qed

section \<open>The operations keep the store well formed and its titles distinct\<close>

lemma addNewManga_rejected:
  assumes "title (getMangaFormData st form tab) \<in> set (titles st)"
  shows "addNewManga st form tab date = (st, [ShowModal ''modal-unique-title-required''])"
proof -
  let ?data = "getMangaFormData st form tab"
  from assms have used: "isNameUsed st (title ?data)" by (simp add: isNameUsed_titles)
  then have "title ?data \<noteq> []" by (rule formTitle_used_nonempty)
  with used have "validateMangaData st ?data [] = Some ''modal-unique-title-required''"
    by (simp add: validateMangaData_def)
  then show ?thesis by (simp add: addNewManga_def Let_def)
qed

lemma addNewManga_accepted:
  assumes "validateMangaData st (getMangaFormData st form tab) [] = None"
  shows "fst (addNewManga st form tab date) =
     st\<lparr>objects := (objects st)(nextRef st \<mapsto>
            \<lparr>image = image (getMangaFormData st form tab), title = title (getMangaFormData st form tab),
             link = link (getMangaFormData st form tab),
             isImageWorking = isImageWorking (getMangaFormData st form tab),
             readChapters = readChapters (getMangaFormData st form tab),
             favorite = favorite (getMangaFormData st form tab), dayAdded = date, lastRead = date\<rparr>),
         mangaList := mangaList st @ [nextRef st], nextRef := nextRef st + 1\<rparr>"
  using assms by (simp add: addNewManga_def Let_def)

lemma validate_None_unused:
  "validateMangaData st data [] = None \<Longrightarrow> title data \<notin> set (titles st)"
  by (auto simp: validateMangaData_def isNameUsed_titles split: if_splits)

lemma addNewManga_keeps:
  assumes wf: "wellFormed st" and d: "distinct (titles st)"
  shows "wellFormed (fst (addNewManga st form tab date)) \<and>
         distinct (titles (fst (addNewManga st form tab date)))"
proof (cases "validateMangaData st (getMangaFormData st form tab) []")
  case (Some e)
  then have "fst (addNewManga st form tab date) = st" by (simp add: addNewManga_def Let_def)
  with wf d show ?thesis by simp
next
  case None
  let ?data = "getMangaFormData st form tab"
  from wf have fresh: "nextRef st \<notin> set (mangaList st)"
    by (auto simp: wellFormed_def list_all_iff)
  have old: "titles (fst (addNewManga st form tab date)) = titles st @ [title ?data]"
    using fresh by (auto simp: addNewManga_accepted [OF None] titles_def deref_def)
  have "wellFormed (fst (addNewManga st form tab date))"
    using wf by (auto simp: addNewManga_accepted [OF None] wellFormed_def list_all_iff)
  moreover have "distinct (titles (fst (addNewManga st form tab date)))"
    using d validate_None_unused [OF None] by (simp add: old)
  ultimately show ?thesis by simp
qed

lemma updateMangaDetails_cases:
  "fst (updateMangaDetails st m form tab newUrl now) = st \<or>
   (validateMangaData st (getMangaFormData st form tab) (title (deref st m)) = None \<and>
    fst (updateMangaDetails st m form tab newUrl now) =
      st\<lparr>objects := (objects st)(m \<mapsto>
         (deref st m)\<lparr>image := image (getMangaFormData st form tab),
           title := title (getMangaFormData st form tab),
           link := link (getMangaFormData st form tab),
           isImageWorking := isImageWorking (getMangaFormData st form tab),
           readChapters := readChapters (getMangaFormData st form tab),
           favorite := favorite (getMangaFormData st form tab), lastRead := now\<rparr>)\<rparr>)"
  by (simp add: updateMangaDetails_def Let_def split: option.splits)

lemma updateMangaDetails_keeps:
  assumes wf: "wellFormed st" and d: "distinct (titles st)"
  shows "wellFormed (fst (updateMangaDetails st m form tab newUrl now)) \<and>
         distinct (titles (fst (updateMangaDetails st m form tab newUrl now)))"
proof -
  let ?data = "getMangaFormData st form tab"
  let ?st' = "fst (updateMangaDetails st m form tab newUrl now)"
  from updateMangaDetails_cases [of st m form tab newUrl now]
  show ?thesis
  proof
    assume "?st' = st"
    with wf d show ?thesis by simp
  next
    assume merged: "validateMangaData st ?data (title (deref st m)) = None \<and>
      ?st' = st\<lparr>objects := (objects st)(m \<mapsto>
         (deref st m)\<lparr>image := image ?data, title := title ?data, link := link ?data,
           isImageWorking := isImageWorking ?data, readChapters := readChapters ?data,
           favorite := favorite ?data, lastRead := now\<rparr>)\<rparr>"
    then have ok: "title ?data = title (deref st m) \<or> title ?data \<notin> set (titles st)"
      by (auto simp: validateMangaData_def isNameUsed_titles split: if_splits)
    have t': "titles ?st' = map (\<lambda>r. if r = m then title ?data else title (deref st r)) (mangaList st)"
      using merged by (simp add: titles_def deref_def)
    from d have dl: "distinct (mangaList st)" and inj: "inj_on (\<lambda>r. title (deref st r)) (set (mangaList st))"
      by (simp_all add: titles_def distinct_map)
    have "inj_on (\<lambda>r. if r = m then title ?data else title (deref st r)) (set (mangaList st))"
    proof (rule inj_onI)
      fix a b
      assume a: "a \<in> set (mangaList st)" and b: "b \<in> set (mangaList st)"
        and eq: "(if a = m then title ?data else title (deref st a)) =
                 (if b = m then title ?data else title (deref st b))"
      have ta: "title (deref st a) \<in> set (titles st)" and tb: "title (deref st b) \<in> set (titles st)"
        using a b by (auto simp: titles_def)
      show "a = b"
      proof (cases "a = m")
        case True
        note am = this
        show ?thesis
        proof (cases "b = m")
          case True with am show ?thesis by simp
        next
          case False
          with am eq have e: "title ?data = title (deref st b)" by simp
          with ok tb have "title (deref st m) = title (deref st b)" by auto
          with inj a b am show ?thesis by (auto dest: inj_onD)
        qed
      next
        case False
        note am = this
        show ?thesis
        proof (cases "b = m")
          case True
          with am eq have e: "title ?data = title (deref st a)" by simp
          with ok ta have "title (deref st m) = title (deref st a)" by auto
          with inj a b True show ?thesis by (auto dest: inj_onD)
        next
          case False
          with am eq have "title (deref st a) = title (deref st b)" by simp
          with inj a b show ?thesis by (auto dest: inj_onD)
        qed
      qed
    qed
    with dl have "distinct (titles ?st')" by (simp add: t' distinct_map)
    moreover have "wellFormed ?st'"
      using wf merged by (auto simp: wellFormed_def list_all_iff)
    ultimately show ?thesis by simp
  qed
qed

lemma deleteManga_store:
  "fst (snd (deleteManga st m ev)) = st\<lparr>mangaList := filter (\<lambda>r. r \<noteq> m) (mangaList st)\<rparr>"
  by (simp add: deleteManga_def Let_def split: option.splits)

lemma deleteManga_keeps:
  assumes wf: "wellFormed st" and d: "distinct (titles st)"
  shows "wellFormed (fst (snd (deleteManga st m ev))) \<and>
         distinct (titles (fst (snd (deleteManga st m ev))))"
proof -
  have "titles (fst (snd (deleteManga st m ev)))
      = map (\<lambda>r. title (deref st r)) (filter (\<lambda>r. r \<noteq> m) (mangaList st))"
    by (simp add: deleteManga_store titles_def deref_def)
  moreover from d have "distinct (map (\<lambda>r. title (deref st r)) (filter (\<lambda>r. r \<noteq> m) (mangaList st)))"
    unfolding titles_def by (rule distinct_map_filter)
  moreover have "wellFormed (fst (snd (deleteManga st m ev)))"
    using wf by (auto simp: deleteManga_store wellFormed_def list_all_iff)
  ultimately show ?thesis by simp
qed

lemma step_keeps:
  "wellFormed st \<Longrightarrow> distinct (titles st) \<Longrightarrow>
     wellFormed (step st a) \<and> distinct (titles (step st a))"
  by (cases a) (simp_all add: addNewManga_keeps updateMangaDetails_keeps deleteManga_keeps)

lemma run_keeps:
  "wellFormed st \<Longrightarrow> distinct (titles st) \<Longrightarrow>
     wellFormed (run st acts) \<and> distinct (titles (run st acts))"
  unfolding run_def
proof (induction acts arbitrary: st)
  case Nil
  then show ?case by simp
next
  case (Cons a acts)
  from step_keeps [OF Cons.prems] Cons.IH [of "step st a"] show ?case by simp
qed

lemma updateMangaDetails_rejected:
  assumes "title (getMangaFormData st form tab) \<noteq> title (deref st m)"
    and "title (getMangaFormData st form tab) \<in> set (titles st)"
  shows "updateMangaDetails st m form tab newUrl now = (st, [ShowModal ''modal-unique-title-required''])"
proof -
  let ?data = "getMangaFormData st form tab"
  from assms(2) have used: "isNameUsed st (title ?data)" by (simp add: isNameUsed_titles)
  then have "title ?data \<noteq> []" by (rule formTitle_used_nonempty)
  with used assms(1)
  have "validateMangaData st ?data (title (deref st m)) = Some ''modal-unique-title-required''"
    by (simp add: validateMangaData_def)
  then show ?thesis by (simp add: updateMangaDetails_def Let_def)
qed

lemma formTitled_title:
  "trim t \<noteq> [] \<Longrightarrow> title (getMangaFormData st (formTitled t) tab) = trim t"
  by (simp add: getMangaFormData_def formTitled_def Let_def)

section \<open>Adding a title that is taken\<close>

text \<open>
  Claim C2. When the title of the submitted form data is the title of a stored record,
  \<^verbatim>\<open>addNewManga\<close> shows the modal with the message key of the title-not-unique error
  and does nothing else: the store it leaves is the store it found, and the list is as
  long as before.
\<close>

theorem addNewManga_rejects_duplicate:
  "title (getMangaFormData st form tab) \<in> set (titles st) \<Longrightarrow>
     addNewManga st form tab date = (st, [ShowModal ''modal-unique-title-required'']) \<and>
     length (mangaList (fst (addNewManga st form tab date))) = length (mangaList st)"
  by (simp add: addNewManga_rejected)

text \<open>
  The scenario of the specification: \<^verbatim>\<open>A\<close> is stored, and a form titled \<^verbatim>\<open>A\<close>
  with link \<^verbatim>\<open>x\<close> is submitted.
\<close>

theorem addNewManga_rejects_duplicate_witness:
  "title (getMangaFormData storeA (formTitled ''A'') tabA) \<in> set (titles storeA) \<and>
   addNewManga storeA (formTitled ''A'') tabA ''d1''
     = (storeA, [ShowModal ''modal-unique-title-required'']) \<and>
   length (mangaList (fst (addNewManga storeA (formTitled ''A'') tabA ''d1''))) = 1"
proof -
  have t: "title (getMangaFormData storeA (formTitled ''A'') tabA) = ''A''"
    by (simp add: formTitled_title trim_def isWhiteSpace_def)
  then have h: "title (getMangaFormData storeA (formTitled ''A'') tabA) \<in> set (titles storeA)"
    by (simp add: titles_storeA)
  from addNewManga_rejects_duplicate [OF h, of "''d1''"] h show ?thesis
    by (simp add: storeA_def)
qed

section \<open>Titles stay unique\<close>

text \<open>
  Claim C1. Start from a store whose titles are pairwise distinct (and whose listed
  references point to objects below \<^const>\<open>nextRef\<close>, as they do in any store the
  program builds). After any sequence of add, edit and delete operations the titles of
  the store are pairwise distinct. Moreover \<^verbatim>\<open>addNewManga\<close> rejects form data whose
  title is stored already, and \<^verbatim>\<open>updateMangaDetails\<close> rejects form data whose title is
  that of a stored record other than the one being edited.
\<close>

theorem titles_stay_unique:
  assumes "wellFormed st" and "distinct (titles st)"
  shows "distinct (titles (run st acts)) \<and>
    (title (getMangaFormData st form tab) \<in> set (titles st) \<longrightarrow>
       addNewManga st form tab date = (st, [ShowModal ''modal-unique-title-required''])) \<and>
    (\<forall>r\<in>set (mangaList st). m \<in> set (mangaList st) \<and> r \<noteq> m \<and>
         title (getMangaFormData st form tab) = title (deref st r) \<longrightarrow>
       updateMangaDetails st m form tab newUrl now
         = (st, [ShowModal ''modal-unique-title-required'']))"
proof (intro conjI impI ballI)
  show "distinct (titles (run st acts))"
    using run_keeps [OF assms] by simp
next
  assume "title (getMangaFormData st form tab) \<in> set (titles st)"
  then show "addNewManga st form tab date = (st, [ShowModal ''modal-unique-title-required''])"
    by (rule addNewManga_rejected)
next
  fix r
  assume r: "r \<in> set (mangaList st)"
    and c: "m \<in> set (mangaList st) \<and> r \<noteq> m \<and>
         title (getMangaFormData st form tab) = title (deref st r)"
  from assms(2) have "inj_on (\<lambda>r. title (deref st r)) (set (mangaList st))"
    by (simp add: titles_def distinct_map)
  with r c have "title (deref st r) \<noteq> title (deref st m)" by (auto dest: inj_onD)
  with c have "title (getMangaFormData st form tab) \<noteq> title (deref st m)" by simp
  moreover from r c have "title (getMangaFormData st form tab) \<in> set (titles st)"
    by (auto simp: titles_def)
  ultimately show "updateMangaDetails st m form tab newUrl now
         = (st, [ShowModal ''modal-unique-title-required''])"
    by (rule updateMangaDetails_rejected)
qed

lemma wellFormed_storeAA1: "wellFormed storeAA1"
  by (simp add: wellFormed_def storeAA1_def)


lemma run_sampleActions: "titles (run storeAA1 sampleActions) = [''C'', ''B'', ''A'']"
  by (simp add: run_def sampleActions_def addNewManga_def updateMangaDetails_def deleteManga_def
    getMangaFormData_def validateMangaData_def hasChanges_def handleLinkReload_def
    isNameUsed_def generateUniqueTitle_def titles_def deref_def storeAA1_def mangaA_def mangaA1_def
    formTitled_def blankForm_def tabA_def clickOn_def trim_def isWhiteSpace_def parseInt_def
    isDigit_def digitsValue_def digitValue_def refreshAndSaveMangas_def Let_def)

text \<open>
  Six operations on the store of \<^verbatim>\<open>A\<close> and \<^verbatim>\<open>A (1)\<close>: two of them are rejected,
  and the titles at the end are \<^verbatim>\<open>C\<close>, \<^verbatim>\<open>B\<close> and \<^verbatim>\<open>A\<close>.
\<close>

theorem titles_stay_unique_witness:
  "wellFormed storeAA1 \<and> distinct (titles storeAA1) \<and>
   titles (run storeAA1 sampleActions) = [''C'', ''B'', ''A''] \<and>
   distinct (titles (run storeAA1 sampleActions)) \<and>
   title (getMangaFormData storeAA1 (formTitled ''A (1)'') tabA) \<in> set (titles storeAA1) \<and>
   addNewManga storeAA1 (formTitled ''A (1)'') tabA ''d2''
     = (storeAA1, [ShowModal ''modal-unique-title-required'']) \<and>
   1 \<in> set (mangaList storeAA1) \<and> 0 \<in> set (mangaList storeAA1) \<and>
   title (getMangaFormData storeAA1 (formTitled ''A (1)'') tabA) = title (deref storeAA1 1) \<and>
   updateMangaDetails storeAA1 0 (formTitled ''A (1)'') tabA tabA ''d2''
     = (storeAA1, [ShowModal ''modal-unique-title-required''])"
proof -
  have d: "distinct (titles storeAA1)" by (simp add: titles_storeAA1)
  have t: "title (getMangaFormData storeAA1 (formTitled ''A (1)'') tabA) = ''A (1)''"
    by (simp add: formTitled_title trim_def isWhiteSpace_def)
  have l: "mangaList storeAA1 = [0, 1]" by (simp add: storeAA1_def)
  have r: "title (deref storeAA1 1) = ''A (1)''"
    by (simp add: deref_def storeAA1_def mangaA1_def)
  from titles_stay_unique [OF wellFormed_storeAA1 d, of sampleActions "formTitled ''A (1)''" tabA
      "''d2''" 0 tabA "''d2''"]
  show ?thesis using wellFormed_storeAA1 d t l r run_sampleActions
    by (simp add: titles_storeAA1)
qed

section \<open>Chapter counter\<close>








text \<open>
  Claim C3, at an input where the code breaks it. The guard of the \<^verbatim>\<open>"-"\<close> branch
  looks at the count only, not at the amount: with 2 chapters read, subtracting 5 gives
  \<open>- 3\<close>, and the label reads \<^verbatim>\<open>Ch. -3\<close>.
\<close>

theorem handleChapterUpdate_decrement_negative:
  "readChapters mangaA = Fin 2 \<and>
   thrown (handleChapterUpdate mangaA ''-'' 5 (clickOn mangaA) 100 ''title'' ''d9'') = None \<and>
   readChapters (updated (handleChapterUpdate mangaA ''-'' 5 (clickOn mangaA) 100 ''title'' ''d9''))
     = Fin (- 3) \<and>
   map_option chapterCountText
     (item (handleChapterUpdate mangaA ''-'' 5 (clickOn mangaA) 100 ''title'' ''d9'')) = Some ''Ch. -3''"
proof -
  have five: "parseIntOr (Fin 5) 1 = 5" by (simp add: parseIntOr_exact)
  have own: "parseIntOr (Fin 2) 0 = 2" by (simp add: parseIntOr_exact)
  have diff: "roundDouble (- 3) = - 3" by (simp add: roundDouble_exact)
  have label: "numberToString (Fin (- 3)) = ''-3''"
    by (simp add: numberToString.simps positiveToString_def natToString.simps digitChar_def)
  show ?thesis
    by (simp add: handleChapterUpdate_def clickOn_def mangaA_def Let_def five own diff label)
qed

text \<open>
  With the amount 1, the only one the click listener passes, the count stays at or above 0.
\<close>

lemma handleChapterUpdate_decrement_by_one:
  assumes "closestMangaItem ev \<noteq> None" and "readChapters m = Fin n"
    and "0 \<le> n" and "n < 9007199254740992"
  shows "readChapters (updated (handleChapterUpdate m ''-'' 1 ev maxChapters sortOption now))
       = Fin (max 0 (n - 1))"
proof -
  have one: "parseIntOr (Fin 1) 1 = 1" by (simp add: parseIntOr_exact)
  from assms(3,4) have own: "parseIntOr (Fin n) 0 = n" by (simp add: parseIntOr_exact)
  from assms(3,4) have diff: "roundDouble (n - 1) = n - 1" by (intro roundDouble_exact) simp
  show ?thesis
    using assms by (auto simp: handleChapterUpdate_def Let_def one own diff split: option.splits)
qed

section \<open>The title of a list item\<close>

lemma keepsTag_handleImageTheme: "keepsTag (handleImageTheme dark)"
  by (simp add: keepsTag_def handleImageTheme_def)

lemma plainText_shortened: "plainText t \<Longrightarrow> plainText (take n t @ ''...'')"
  by (auto simp: plainText_def list_all_iff dest: in_set_takeD)

text \<open>
  Claim C8, as the code has it. Take a record whose title, link and image hold no double
  quote and whose title holds none of \<^verbatim>\<open><\<close>, \<^verbatim>\<open>&\<close>, the null character and the
  carriage return, so that the markup parser reads the strings as they are written. The
  title paragraph of its item has as its text, between the white space of the template,
  the title in full when the title has fewer than 20 characters, and the first 19
  characters of the title followed by three dots when it has 20 characters or more.
\<close>

theorem createMangaElement_title_shown:
  assumes "keepsTag (title m)" and "keepsTag (link m)"
    and "isImageWorking m \<longrightarrow> keepsTag (image m)" and "plainText (title m)"
  shows
    "(length (title m) < 20 \<longrightarrow>
        titleParagraph (createMangaElement dark m)
          = Some (CHR 0x0A # replicate 20 (CHR '' '') @ title m @
                  CHR 0x0A # replicate 16 (CHR '' ''))) \<and>
     (20 \<le> length (title m) \<longrightarrow>
        titleParagraph (createMangaElement dark m)
          = Some (CHR 0x0A # replicate 20 (CHR '' '') @ (take 19 (title m) @ ''...'') @
                  CHR 0x0A # replicate 16 (CHR '' '')))"
proof -
  have src: "keepsTag (imgSrc (createMangaElement dark m))"
    using assms(3) by (simp add: createMangaElement_def keepsTag_handleImageTheme)
  have shown: "plainText (titleText (createMangaElement dark m))"
    using assms(4) plainText_shortened [OF assms(4), of 19]
    by (simp add: createMangaElement_def)
  have attrs: "keepsTag (imgAlt (createMangaElement dark m))"
    "keepsTag (href (createMangaElement dark m))"
    "keepsTag (titleAttribute (createMangaElement dark m))"
    using assms(1,2) by (simp_all add: createMangaElement_def)
  have whole: "titleParagraph (createMangaElement dark m)
      = Some (CHR 0x0A # replicate 20 (CHR '' '') @ titleText (createMangaElement dark m) @
              CHR 0x0A # replicate 16 (CHR '' ''))"
    using src shown attrs by (simp add: titleParagraph_def)
  have interpolated: "titleText (createMangaElement dark m)
      = (if length (title m) < 20 then title m else take 19 (title m) @ ''...'')"
    by (simp add: createMangaElement_def)
  show ?thesis unfolding whole interpolated by simp
qed

lemma plain_mangaA:
  "keepsTag (title mangaA) \<and> keepsTag (link mangaA) \<and> keepsTag (image mangaA) \<and>
   plainText (title mangaA)"
  by (simp add: keepsTag_def plainText_def mangaA_def)

lemma plain_mangaTwenty:
  "keepsTag (title mangaTwenty) \<and> keepsTag (link mangaTwenty) \<and> keepsTag (image mangaTwenty) \<and>
   plainText (title mangaTwenty)"
  by (simp add: keepsTag_def plainText_def mangaA_def mangaTwenty_def)

text \<open>A title of one character and a title of twenty.\<close>

theorem createMangaElement_title_shown_witness:
  "keepsTag (title mangaA) \<and> keepsTag (link mangaA) \<and> keepsTag (image mangaA) \<and>
   plainText (title mangaA) \<and> length (title mangaA) < 20 \<and>
   titleParagraph (createMangaElement False mangaA)
     = Some (CHR 0x0A # replicate 20 (CHR '' '') @ ''A'' @ CHR 0x0A # replicate 16 (CHR '' '')) \<and>
   keepsTag (title mangaTwenty) \<and> keepsTag (link mangaTwenty) \<and> keepsTag (image mangaTwenty) \<and>
   plainText (title mangaTwenty) \<and> 20 \<le> length (title mangaTwenty) \<and>
   titleParagraph (createMangaElement False mangaTwenty)
     = Some (CHR 0x0A # replicate 20 (CHR '' '') @ ''1234567890123456789...'' @
             CHR 0x0A # replicate 16 (CHR '' ''))"
proof -
  have a: "length (title mangaA) < 20" by (simp add: mangaA_def)
  have b: "20 \<le> length (title mangaTwenty)" by (simp add: mangaTwenty_def)
  from plain_mangaA have pa: "keepsTag (title mangaA)" "keepsTag (link mangaA)"
    "isImageWorking mangaA \<longrightarrow> keepsTag (image mangaA)" "plainText (title mangaA)"
    by simp_all
  from plain_mangaTwenty have pt: "keepsTag (title mangaTwenty)" "keepsTag (link mangaTwenty)"
    "isImageWorking mangaTwenty \<longrightarrow> keepsTag (image mangaTwenty)" "plainText (title mangaTwenty)"
    by simp_all
  from createMangaElement_title_shown [OF pa, of False] a
  have "titleParagraph (createMangaElement False mangaA)
     = Some (CHR 0x0A # replicate 20 (CHR '' '') @ title mangaA @
             CHR 0x0A # replicate 16 (CHR '' ''))"
    by simp
  then have one: "titleParagraph (createMangaElement False mangaA)
     = Some (CHR 0x0A # replicate 20 (CHR '' '') @ ''A'' @ CHR 0x0A # replicate 16 (CHR '' ''))"
    by (simp add: mangaA_def)
  from createMangaElement_title_shown [OF pt, of False] b
  have "titleParagraph (createMangaElement False mangaTwenty)
     = Some (CHR 0x0A # replicate 20 (CHR '' '') @ (take 19 (title mangaTwenty) @ ''...'') @
             CHR 0x0A # replicate 16 (CHR '' ''))"
    by simp
  then have twenty: "titleParagraph (createMangaElement False mangaTwenty)
     = Some (CHR 0x0A # replicate 20 (CHR '' '') @ ''1234567890123456789...'' @
             CHR 0x0A # replicate 16 (CHR '' ''))"
    by (simp add: mangaTwenty_def)
  from plain_mangaA plain_mangaTwenty a b one twenty show ?thesis by (intro conjI) simp_all
qed

text \<open>
  Claim C8 as stated fails for a title of exactly 20 characters: with nothing in it for
  the markup parser to act on, it is still not shown in full but cut to 19 characters and
  the dots.
\<close>

theorem createMangaElement_title_twenty:
  "length (title mangaTwenty) = 20 \<and>
   titleParagraph (createMangaElement False mangaTwenty)
     = Some (CHR 0x0A # replicate 20 (CHR '' '') @ ''1234567890123456789...'' @
             CHR 0x0A # replicate 16 (CHR '' '')) \<and>
   titleParagraph (createMangaElement False mangaTwenty)
     \<noteq> Some (CHR 0x0A # replicate 20 (CHR '' '') @ title mangaTwenty @
             CHR 0x0A # replicate 16 (CHR '' ''))"
  by (simp add: titleParagraph_def createMangaElement_def mangaTwenty_def mangaA_def
      keepsTag_def plainText_def)

section \<open>Deleting a record\<close>

text \<open>
  Claim C10. In a store that lists each of its objects once, \<^verbatim>\<open>deleteManga\<close> of a
  listed record leaves the list with that one reference taken out: what stood before it
  and what stood after it remain, in their order, the list is shorter by one, and no
  object is changed. The record is found by its reference; its title plays no part.
\<close>

theorem deleteManga_removes_that_record:
  assumes "m \<in> set (mangaList st)" and "distinct (mangaList st)"
  shows "(\<exists>before after. mangaList st = before @ m # after \<and>
            mangaList (fst (snd (deleteManga st m ev))) = before @ after) \<and>
         m \<notin> set (mangaList (fst (snd (deleteManga st m ev)))) \<and>
         length (mangaList (fst (snd (deleteManga st m ev)))) + 1 = length (mangaList st) \<and>
         objects (fst (snd (deleteManga st m ev))) = objects st"
proof -
  from assms(1) obtain before after where s: "mangaList st = before @ m # after"
    by (auto simp: in_set_conv_decomp)
  with assms(2) have "m \<notin> set before" and "m \<notin> set after" by auto
  then have "filter (\<lambda>r. r \<noteq> m) before = before" and "filter (\<lambda>r. r \<noteq> m) after = after"
    by (auto simp: filter_id_conv)
  then have f: "filter (\<lambda>r. r \<noteq> m) (mangaList st) = before @ after"
    by (simp add: s)
  then have "mangaList (fst (snd (deleteManga st m ev))) = before @ after"
    by (simp add: deleteManga_store)
  moreover have "objects (fst (snd (deleteManga st m ev))) = objects st"
    by (simp add: deleteManga_store)
  ultimately show ?thesis using s \<open>m \<notin> set before\<close> \<open>m \<notin> set after\<close> by auto
qed

text \<open>
  The records at 0 and 1 are equal field by field; deleting the one at 1 leaves the one
  at 0 in the list.
\<close>

theorem deleteManga_removes_that_record_witness:
  "1 \<in> set (mangaList storeTwins) \<and> distinct (mangaList storeTwins) \<and>
   deref storeTwins 0 = deref storeTwins 1 \<and>
   mangaList (fst (snd (deleteManga storeTwins 1 (clickOn mangaA)))) = [0, 2] \<and>
   objects (fst (snd (deleteManga storeTwins 1 (clickOn mangaA)))) = objects storeTwins"
proof -
  have l: "mangaList storeTwins = [0, 1, 2]" by (simp add: storeTwins_def)
  then have h: "1 \<in> set (mangaList storeTwins)" and d: "distinct (mangaList storeTwins)" by simp_all
  have e: "deref storeTwins 0 = deref storeTwins 1" by (simp add: deref_def storeTwins_def)
  from deleteManga_removes_that_record [OF h d, of "clickOn mangaA"]
  obtain before after where s: "mangaList storeTwins = before @ 1 # after"
    and r: "mangaList (fst (snd (deleteManga storeTwins 1 (clickOn mangaA)))) = before @ after"
    and o: "objects (fst (snd (deleteManga storeTwins 1 (clickOn mangaA)))) = objects storeTwins"
    by blast
  from s l have "before = [0] \<and> after = [2]"
    by (auto simp: append_eq_Cons_conv Cons_eq_append_conv)
  with r o h d e show ?thesis by simp
qed

section \<open>Submitting an edit\<close>

lemma formLinked_data:
  "getMangaFormData st (formLinked [c]) tab =
     \<lparr>image = [], title = ''A'', link = (if isWhiteSpace c then tabUrl tab else [c]),
      isImageWorking = True, readChapters = Fin 2, favorite = False\<rparr>"
  by (simp add: getMangaFormData_def formLinked_def Let_def trim_def isWhiteSpace_def
      parseInt_def isDigit_def digitsValue_def digitValue_def toNumber_exact)

lemma deref_storeA: "deref storeA 0 = mangaA"
  by (simp add: deref_def storeA_def)

lemma updateMangaDetails_same:
  assumes "validateMangaData st (getMangaFormData st form tab) (title (deref st m)) = None"
    and "hasChanges (deref st m) (getMangaFormData st form tab)"
  shows "updateMangaDetails st m form tab newUrl now = (st, handleLinkReload st m newUrl)"
  using assms by (simp add: updateMangaDetails_def Let_def)

lemma updateMangaDetails_merged:
  assumes "validateMangaData st (getMangaFormData st form tab) (title (deref st m)) = None"
    and "\<not> hasChanges (deref st m) (getMangaFormData st form tab)"
  shows "updateMangaDetails st m form tab newUrl now =
    (st\<lparr>objects := (objects st)(m \<mapsto>
         (deref st m)\<lparr>image := image (getMangaFormData st form tab),
           title := title (getMangaFormData st form tab),
           link := link (getMangaFormData st form tab),
           isImageWorking := isImageWorking (getMangaFormData st form tab),
           readChapters := readChapters (getMangaFormData st form tab),
           favorite := favorite (getMangaFormData st form tab), lastRead := now\<rparr>)\<rparr>,
     [ResetFormValues, HideMangaForm, LoadFilteredMangas, SaveMangas])"
  using assms by (simp add: updateMangaDetails_def Let_def refreshAndSaveMangas_def)

lemma truncate_merged:
  "mangaData.truncate (r\<lparr>image := image d, title := title d, link := link d,
      isImageWorking := isImageWorking d, readChapters := readChapters d,
      favorite := favorite d, lastRead := now\<rparr>) = (d :: mangaData)"
  by (simp add: mangaData.truncate_def)

text \<open>
  Claim C4, as the code has it. Take an edit submission that passes validation. If the
  form data equals the stored record in image, link, read chapters, title and favorite
  flag, nothing is saved: when the active tab's URL differs from the record's link the
  reload dialog is shown, and otherwise all dialogs are closed. If any of the five fields
  differs, the link included, the form data is merged into the record and
  \<^verbatim>\<open>lastRead\<close> is set to the current time, no other object and not the list is
  touched, and the form is reset and hidden, the list rendered again and the store saved.
\<close>

theorem updateMangaDetails_unchanged_or_merged:
  assumes "validateMangaData st (getMangaFormData st form tab) (title (deref st m)) = None"
  shows
    "(image (deref st m) = image (getMangaFormData st form tab) \<and>
      link (deref st m) = link (getMangaFormData st form tab) \<and>
      readChapters (deref st m) = readChapters (getMangaFormData st form tab) \<and>
      title (deref st m) = title (getMangaFormData st form tab) \<and>
      favorite (deref st m) = favorite (getMangaFormData st form tab) \<longrightarrow>
        updateMangaDetails st m form tab newUrl now =
          (st, if link (deref st m) = tabUrl newUrl then [CloseAllDialogs] else [ShowReloadDialog])) \<and>
     (\<not> (image (deref st m) = image (getMangaFormData st form tab) \<and>
         link (deref st m) = link (getMangaFormData st form tab) \<and>
         readChapters (deref st m) = readChapters (getMangaFormData st form tab) \<and>
         title (deref st m) = title (getMangaFormData st form tab) \<and>
         favorite (deref st m) = favorite (getMangaFormData st form tab)) \<longrightarrow>
        snd (updateMangaDetails st m form tab newUrl now)
          = [ResetFormValues, HideMangaForm, LoadFilteredMangas, SaveMangas] \<and>
        mangaList (fst (updateMangaDetails st m form tab newUrl now)) = mangaList st \<and>
        (\<forall>r. r \<noteq> m \<longrightarrow>
           objects (fst (updateMangaDetails st m form tab newUrl now)) r = objects st r) \<and>
        mangaData.truncate (deref (fst (updateMangaDetails st m form tab newUrl now)) m)
          = getMangaFormData st form tab \<and>
        lastRead (deref (fst (updateMangaDetails st m form tab newUrl now)) m) = now \<and>
        dayAdded (deref (fst (updateMangaDetails st m form tab newUrl now)) m)
          = dayAdded (deref st m))"
proof (rule conjI; rule impI)
  let ?data = "getMangaFormData st form tab"
  assume "image (deref st m) = image ?data \<and> link (deref st m) = link ?data \<and>
      readChapters (deref st m) = readChapters ?data \<and> title (deref st m) = title ?data \<and>
      favorite (deref st m) = favorite ?data"
  then have "hasChanges (deref st m) ?data" by (simp add: hasChanges_def)
  from updateMangaDetails_same [OF assms this]
  show "updateMangaDetails st m form tab newUrl now =
          (st, if link (deref st m) = tabUrl newUrl then [CloseAllDialogs] else [ShowReloadDialog])"
    by (simp add: handleLinkReload_def)
next
  let ?data = "getMangaFormData st form tab"
  assume "\<not> (image (deref st m) = image ?data \<and> link (deref st m) = link ?data \<and>
      readChapters (deref st m) = readChapters ?data \<and> title (deref st m) = title ?data \<and>
      favorite (deref st m) = favorite ?data)"
  then have "\<not> hasChanges (deref st m) ?data" by (simp add: hasChanges_def)
  note merged = updateMangaDetails_merged [OF assms this, of newUrl now]
  show "snd (updateMangaDetails st m form tab newUrl now)
          = [ResetFormValues, HideMangaForm, LoadFilteredMangas, SaveMangas] \<and>
        mangaList (fst (updateMangaDetails st m form tab newUrl now)) = mangaList st \<and>
        (\<forall>r. r \<noteq> m \<longrightarrow>
           objects (fst (updateMangaDetails st m form tab newUrl now)) r = objects st r) \<and>
        mangaData.truncate (deref (fst (updateMangaDetails st m form tab newUrl now)) m)
          = getMangaFormData st form tab \<and>
        lastRead (deref (fst (updateMangaDetails st m form tab newUrl now)) m) = now \<and>
        dayAdded (deref (fst (updateMangaDetails st m form tab newUrl now)) m)
          = dayAdded (deref st m)"
    unfolding merged by (simp add: deref_def truncate_merged)
qed

text \<open>
  The record \<^verbatim>\<open>A\<close> with link \<^verbatim>\<open>x\<close>: submitted unchanged on a tab at
  \<^verbatim>\<open>z\<close>, unchanged on a tab at \<^verbatim>\<open>x\<close>, and with the link changed to
  \<^verbatim>\<open>y\<close>.
\<close>

theorem updateMangaDetails_unchanged_or_merged_witness:
  "validateMangaData storeA (getMangaFormData storeA (formLinked ''x'') tabZ) (title (deref storeA 0)) = None \<and>
   updateMangaDetails storeA 0 (formLinked ''x'') tabZ tabZ ''d9'' = (storeA, [ShowReloadDialog]) \<and>
   updateMangaDetails storeA 0 (formLinked ''x'') tabX tabX ''d9'' = (storeA, [CloseAllDialogs]) \<and>
   validateMangaData storeA (getMangaFormData storeA (formLinked ''y'') tabZ) (title (deref storeA 0)) = None \<and>
   link (deref storeA 0) \<noteq> link (getMangaFormData storeA (formLinked ''y'') tabZ) \<and>
   snd (updateMangaDetails storeA 0 (formLinked ''y'') tabZ tabZ ''d9'')
     = [ResetFormValues, HideMangaForm, LoadFilteredMangas, SaveMangas] \<and>
   mangaData.truncate (deref (fst (updateMangaDetails storeA 0 (formLinked ''y'') tabZ tabZ ''d9'')) 0)
     = \<lparr>image = [], title = ''A'', link = ''y'', isImageWorking = True, readChapters = Fin 2,
        favorite = False\<rparr> \<and>
   lastRead (deref (fst (updateMangaDetails storeA 0 (formLinked ''y'') tabZ tabZ ''d9'')) 0) = ''d9''"
proof -
  have vx: "validateMangaData storeA (getMangaFormData storeA (formLinked ''x'') tab) (title (deref storeA 0)) = None"
    for tab
    by (simp add: formLinked_data deref_storeA validateMangaData_def mangaA_def)
  have vy: "validateMangaData storeA (getMangaFormData storeA (formLinked ''y'') tabZ) (title (deref storeA 0)) = None"
    by (simp add: formLinked_data deref_storeA validateMangaData_def mangaA_def)
  have a: "updateMangaDetails storeA 0 (formLinked ''x'') tabZ tabZ ''d9'' = (storeA, [ShowReloadDialog])"
    using updateMangaDetails_unchanged_or_merged [OF vx, of tabZ tabZ "''d9''"]
    by (simp add: formLinked_data deref_storeA mangaA_def isWhiteSpace_def tabZ_def)
  have b: "updateMangaDetails storeA 0 (formLinked ''x'') tabX tabX ''d9'' = (storeA, [CloseAllDialogs])"
    using updateMangaDetails_unchanged_or_merged [OF vx, of tabX tabX "''d9''"]
    by (simp add: formLinked_data deref_storeA mangaA_def isWhiteSpace_def tabX_def)
  have dy: "getMangaFormData storeA (formLinked ''y'') tabZ
      = \<lparr>image = [], title = ''A'', link = ''y'', isImageWorking = True, readChapters = Fin 2,
        favorite = False\<rparr>"
    by (simp add: formLinked_data isWhiteSpace_def)
  have ly: "link (deref storeA 0) \<noteq> link (getMangaFormData storeA (formLinked ''y'') tabZ)"
    by (simp add: dy deref_storeA mangaA_def)
  from updateMangaDetails_unchanged_or_merged [OF vy, of tabZ "''d9''"] ly
  have c: "snd (updateMangaDetails storeA 0 (formLinked ''y'') tabZ tabZ ''d9'')
          = [ResetFormValues, HideMangaForm, LoadFilteredMangas, SaveMangas] \<and>
        mangaData.truncate (deref (fst (updateMangaDetails storeA 0 (formLinked ''y'') tabZ tabZ ''d9'')) 0)
          = getMangaFormData storeA (formLinked ''y'') tabZ \<and>
        lastRead (deref (fst (updateMangaDetails storeA 0 (formLinked ''y'') tabZ tabZ ''d9'')) 0) = ''d9''"
    by blast
  from vx [of tabZ] a b vy ly c show ?thesis unfolding dy by blast
qed

text \<open>
  Claim C4 as stated fails twice. A submission that changes nothing but the link, on a
  tab whose URL differs from the record's link, is saved, and no reload dialog is shown.
  A submission that changes nothing, on a tab whose URL is the record's link, is not
  merged or saved either: the dialogs are closed and the store is as it was.
\<close>

theorem updateMangaDetails_link_edit_is_saved:
  "validateMangaData storeA (getMangaFormData storeA (formLinked ''y'') tabZ)
     (title (deref storeA 0)) = None \<and>
   image (getMangaFormData storeA (formLinked ''y'') tabZ) = image (deref storeA 0) \<and>
   title (getMangaFormData storeA (formLinked ''y'') tabZ) = title (deref storeA 0) \<and>
   readChapters (getMangaFormData storeA (formLinked ''y'') tabZ) = readChapters (deref storeA 0) \<and>
   favorite (getMangaFormData storeA (formLinked ''y'') tabZ) = favorite (deref storeA 0) \<and>
   tabUrl tabZ \<noteq> link (deref storeA 0) \<and>
   ShowReloadDialog \<notin> set (snd (updateMangaDetails storeA 0 (formLinked ''y'') tabZ tabZ ''d9'')) \<and>
   SaveMangas \<in> set (snd (updateMangaDetails storeA 0 (formLinked ''y'') tabZ tabZ ''d9'')) \<and>
   link (deref (fst (updateMangaDetails storeA 0 (formLinked ''y'') tabZ tabZ ''d9'')) 0) = ''y'' \<and>
   tabUrl tabX = link (deref storeA 0) \<and>
   updateMangaDetails storeA 0 (formLinked ''x'') tabX tabX ''d9'' = (storeA, [CloseAllDialogs])"
  by (simp add: updateMangaDetails_def formLinked_data validateMangaData_def
      hasChanges_def handleLinkReload_def refreshAndSaveMangas_def mangaA_def isWhiteSpace_def
      tabZ_def tabX_def deref_def storeA_def Let_def)

section \<open>Batches of a render\<close>

lemma fragmentFrom_take_drop:
  "endIndex \<le> length inputList \<Longrightarrow>
     fragmentFrom dark inputList i endIndex
       = map (createMangaElement dark) (take (endIndex - i) (drop i inputList))"
proof (induction dark inputList i endIndex rule: fragmentFrom.induct)
  case (1 dark inputList i endIndex)
  show ?case
  proof (cases "i < endIndex")
    case False
    then show ?thesis by (simp add: fragmentFrom.simps [of dark inputList i endIndex])
  next
    case True
    with 1 have ih: "fragmentFrom dark inputList (i + 1) endIndex
       = map (createMangaElement dark) (take (endIndex - (i + 1)) (drop (i + 1) inputList))"
      by simp
    from True "1.prems" have "i < length inputList" by simp
    then have "drop i inputList = inputList ! i # drop (i + 1) inputList"
      by (simp add: Cons_nth_drop_Suc)
    moreover from True have "endIndex - i = Suc (endIndex - (i + 1))" by simp
    ultimately have "take (endIndex - i) (drop i inputList)
        = inputList ! i # take (endIndex - (i + 1)) (drop (i + 1) inputList)"
      by simp
    with True ih show ?thesis by (simp add: fragmentFrom.simps [of dark inputList i endIndex])
  qed
qed

lemma concat_batches: "concat (batches b xs) = xs"
proof (induction b xs rule: batches.induct)
  case (1 b xs)
  show ?case
  proof (cases "b = 0 \<or> length xs \<le> b")
    case True
    then show ?thesis by (simp add: batches.simps [of b xs])
  next
    case False
    with 1 have "concat (batches b (drop b xs)) = drop b xs" by simp
    with False show ?thesis by (simp add: batches.simps [of b xs])
  qed
qed

lemma batches_nonempty: "batches b xs \<noteq> []"
  by (simp add: batches.simps [of b xs])

lemma batches_full:
  "0 < b \<Longrightarrow> e \<in> set (butlast (batches b xs)) \<Longrightarrow> length e = b"
proof (induction b xs rule: batches.induct)
  case (1 b xs)
  show ?case
  proof (cases "b = 0 \<or> length xs \<le> b")
    case True
    with "1.prems" show ?thesis by (simp add: batches.simps [of b xs])
  next
    case False
    with "1.prems" have "e = take b xs \<or> e \<in> set (butlast (batches b (drop b xs)))"
      by (simp add: batches.simps [of b xs] batches_nonempty)
    with 1 False show ?thesis by auto
  qed
qed

lemma batches_last:
  "0 < b \<Longrightarrow> length (last (batches b xs)) + b * (length (batches b xs) - 1) = length xs \<and>
     length (last (batches b xs)) \<le> b \<and> (xs \<noteq> [] \<longrightarrow> last (batches b xs) \<noteq> [])"
proof (induction b xs rule: batches.induct)
  case (1 b xs)
  show ?case
  proof (cases "b = 0 \<or> length xs \<le> b")
    case True
    with "1.prems" show ?thesis by (simp add: batches.simps [of b xs])
  next
    case False
    with 1 have ih: "length (last (batches b (drop b xs))) + b * (length (batches b (drop b xs)) - 1)
        = length (drop b xs) \<and> length (last (batches b (drop b xs))) \<le> b \<and>
        (drop b xs \<noteq> [] \<longrightarrow> last (batches b (drop b xs)) \<noteq> [])"
      by simp
    have ne: "batches b (drop b xs) \<noteq> []" by (rule batches_nonempty)
    then have "length (batches b (drop b xs)) - 1 + 1 = length (batches b (drop b xs))"
      by (cases "batches b (drop b xs)") simp_all
    then have "b * (length (batches b (drop b xs))) = b * (length (batches b (drop b xs)) - 1) + b"
      by (metis mult_Suc_right Suc_eq_plus1 add.commute)
    moreover from ih have "length (last (batches b (drop b xs)))
        + b * (length (batches b (drop b xs)) - 1) = length xs - b"
      by simp
    with False have "length (last (batches b (drop b xs)))
        + (b * (length (batches b (drop b xs)) - 1) + b) = length xs"
      by linarith
    ultimately have "length (last (batches b (drop b xs)))
        + b * (length (batches b (drop b xs))) = length xs"
      by simp
    with False ih ne show ?thesis
      by (simp add: batches.simps [of b xs])
  qed
qed

lemma loadBatch_batches:
  assumes "0 < batchSize"
  shows "loadBatch dark inputList batchSize i (shown, events) =
     Some (shown @ map (createMangaElement dark) (drop i inputList),
           events @ batches batchSize (map (createMangaElement dark) (drop i inputList)))"
proof (induction "length inputList - i" arbitrary: i shown events rule: less_induct)
  case less
  let ?f = "createMangaElement dark"
  let ?rest = "drop i inputList"
  let ?endIndex = "min (i + batchSize) (length inputList)"
  have frag: "fragmentFrom dark inputList i ?endIndex = map ?f (take batchSize ?rest)"
  proof -
    have "fragmentFrom dark inputList i ?endIndex = map ?f (take (?endIndex - i) ?rest)"
      by (rule fragmentFrom_take_drop) simp
    moreover have "take (?endIndex - i) ?rest = take batchSize ?rest"
      by (cases "i + batchSize \<le> length inputList") (simp_all add: min_def)
    ultimately show ?thesis by simp
  qed
  show ?case
  proof (cases "i + batchSize < length inputList")
    case True
    with assms have "length inputList - (i + batchSize) < length inputList - i" by simp
    from less [OF this]
    have ih: "loadBatch dark inputList batchSize (i + batchSize) (shown', events') =
       Some (shown' @ map ?f (drop (i + batchSize) inputList),
             events' @ batches batchSize (map ?f (drop (i + batchSize) inputList)))"
      for shown' events' .
    have split: "map ?f ?rest = map ?f (take batchSize ?rest) @ map ?f (drop (i + batchSize) inputList)"
      by (metis append_take_drop_id drop_drop map_append add.commute)
    from True have long: "\<not> (batchSize = 0 \<or> length (map ?f ?rest) \<le> batchSize)"
      using assms by simp
    have b: "batches batchSize (map ?f ?rest)
        = map ?f (take batchSize ?rest) # batches batchSize (map ?f (drop (i + batchSize) inputList))"
      using long by (simp add: batches.simps [of batchSize "map ?f ?rest"] take_map drop_map add.commute)
    from frag True have frag': "fragmentFrom dark inputList i (i + batchSize)
        = map ?f (take batchSize ?rest)"
      by (simp add: min_def)
    show ?thesis
      using True by (subst loadBatch.simps) (simp add: Let_def frag' ih split [symmetric] b)
  next
    case False
    then have short: "length ?rest \<le> batchSize" by simp
    then have "take batchSize ?rest = ?rest" by simp
    moreover from short have "batches batchSize (map ?f ?rest) = [map ?f ?rest]"
      by (simp add: batches.simps [of batchSize "map ?f ?rest"])
    moreover from frag False short have "fragmentFrom dark inputList i (length inputList)
        = map ?f ?rest"
      by (simp add: min_absorb2)
    ultimately show ?thesis
      using False by (subst loadBatch.simps) (simp add: Let_def)
  qed
qed

text \<open>
  Claim C5. For a batch size of at least 1, \<^verbatim>\<open>loadMangas\<close> comes to an end. Whatever
  the container held before, it then holds the items of the input list, one for each
  record, in the order of the list. The fragments appended, one after the other, make up
  exactly these items; every fragment but the last has as many items as the batch size,
  and the last has the remainder, which is at most the batch size and at least one item
  unless the list is empty.
\<close>

theorem loadMangas_batches:
  assumes "0 < batchSize"
  shows "\<exists>events.
     loadMangas container dark inputList batchSize
       = Some (map (createMangaElement dark) inputList, events) \<and>
     concat events = map (createMangaElement dark) inputList \<and>
     events \<noteq> [] \<and>
     (\<forall>e\<in>set (butlast events). length e = batchSize) \<and>
     length (last events) + batchSize * (length events - 1) = length inputList \<and>
     length (last events) \<le> batchSize \<and>
     (inputList \<noteq> [] \<longrightarrow> last events \<noteq> [])"
proof -
  let ?all = "map (createMangaElement dark) inputList"
  have "loadMangas container dark inputList batchSize = Some (?all, batches batchSize ?all)"
    using loadBatch_batches [OF assms, of dark inputList 0 "[]" "[]"]
    by (simp add: loadMangas_def)
  moreover have "concat (batches batchSize ?all) = ?all" by (rule concat_batches)
  moreover have "batches batchSize ?all \<noteq> []" by (rule batches_nonempty)
  moreover have "\<forall>e\<in>set (butlast (batches batchSize ?all)). length e = batchSize"
    using batches_full [OF assms] by blast
  moreover have "length (last (batches batchSize ?all))
      + batchSize * (length (batches batchSize ?all) - 1) = length inputList \<and>
     length (last (batches batchSize ?all)) \<le> batchSize \<and>
     (inputList \<noteq> [] \<longrightarrow> last (batches batchSize ?all) \<noteq> [])"
    using batches_last [OF assms, of ?all] by simp
  ultimately show ?thesis by blast
qed

text \<open>Seven records in batches of three, evaluated.\<close>

lemma loadMangas_seven:
  "map_option (map (map datasetTitle) \<circ> snd) (loadMangas old False sevenMangas 3)
     = Some [[''1'', ''2'', ''3''], [''4'', ''5'', ''6''], [''7'']]"
  by (simp add: loadMangas_def loadBatch.simps fragmentFrom.simps sevenMangas_def
      createMangaElement_def Let_def)

text \<open>
  The scenario of the specification: seven records and a batch size of three give three
  fragments, of three, three and one item, in the order of the list.
\<close>

theorem loadMangas_batches_witness:
  "(0::nat) < 3 \<and>
   (\<exists>events.
      loadMangas [createMangaElement False mangaA1] False sevenMangas 3
        = Some (map (createMangaElement False) sevenMangas, events) \<and>
      concat events = map (createMangaElement False) sevenMangas \<and>
      map (map datasetTitle) events = [[''1'', ''2'', ''3''], [''4'', ''5'', ''6''], [''7'']] \<and>
      map length events = [3, 3, 1])"
proof -
  have pos: "(0::nat) < 3" by simp
  from loadMangas_batches [OF pos, of "[createMangaElement False mangaA1]" False sevenMangas]
  obtain events where
    l: "loadMangas [createMangaElement False mangaA1] False sevenMangas 3
        = Some (map (createMangaElement False) sevenMangas, events)"
    and c: "concat events = map (createMangaElement False) sevenMangas"
    by blast
  from loadMangas_seven [of "[createMangaElement False mangaA1]"] l
  have t: "map (map datasetTitle) events = [[''1'', ''2'', ''3''], [''4'', ''5'', ''6''], [''7'']]"
    by simp
  then have "map length (map (map datasetTitle) events) = [3, 3, 1]" by simp
  then have n: "map length events = [3, 3, 1]" by (simp add: comp_def)
  show ?thesis
  proof (intro conjI exI)
    show "(0::nat) < 3" by (rule pos)
    show "loadMangas [createMangaElement False mangaA1] False sevenMangas 3
        = Some (map (createMangaElement False) sevenMangas, events)" by (rule l)
    show "concat events = map (createMangaElement False) sevenMangas" by (rule c)
    show "map (map datasetTitle) events = [[''1'', ''2'', ''3''], [''4'', ''5'', ''6''], [''7'']]"
      by (rule t)
    show "map length events = [3, 3, 1]" by (rule n)
  qed
qed



text \<open>
  The batch size must be positive: with a batch size of 0 the index never moves, and on a
  list that is not empty \<^verbatim>\<open>loadBatch\<close> reschedules itself for ever.
\<close>

lemma loadBatch_zero_never_returns:
  assumes "loadBatch dark inputList batchSize i shown = Some r"
  shows "batchSize = 0 \<longrightarrow> \<not> i < length inputList"
proof (rule loadBatch.raw_induct
    [where P = "\<lambda>dark inputList batchSize i shown r. batchSize = 0 \<longrightarrow> \<not> i < length inputList",
     OF _ assms])
  fix f dark inputList batchSize currentIndex and shown r :: "mangaElement list \<times> mangaElement list list"
  assume ih: "\<And>dark inputList batchSize currentIndex shown r.
      f dark inputList batchSize currentIndex shown = Some r \<Longrightarrow>
      batchSize = 0 \<longrightarrow> \<not> currentIndex < length inputList"
    and step: "(let endIndex = min (currentIndex + batchSize) (length inputList);
          fragment = fragmentFrom dark inputList currentIndex endIndex;
          shown' = (fst shown @ fragment, snd shown @ [fragment]);
          currentIndex' = currentIndex + batchSize
      in if currentIndex' < length inputList
         then f dark inputList batchSize currentIndex' shown'
         else Some shown') = Some r"
  show "batchSize = 0 \<longrightarrow> \<not> currentIndex < length inputList"
  proof (intro impI notI)
    assume z: "batchSize = 0" and lt: "currentIndex < length inputList"
    with step have "f dark inputList 0 currentIndex
        (fst shown @ fragmentFrom dark inputList currentIndex currentIndex,
         snd shown @ [fragmentFrom dark inputList currentIndex currentIndex]) = Some r"
      by (simp add: Let_def)
    from ih [OF this] lt show False by simp
  qed
qed

lemma loadMangas_zero:
  "inputList \<noteq> [] \<Longrightarrow> loadMangas container dark inputList 0 = None"
proof (cases "loadMangas container dark inputList 0")
  case None
  then show ?thesis by simp
next
  case (Some r)
  assume "inputList \<noteq> []"
  with loadBatch_zero_never_returns [of dark inputList 0 0 "([], [])" r] Some
  show ?thesis by (simp add: loadMangas_def)
qed

end
